theory Spec2Isabelle
  imports Complex_Main
begin

section \<open>Strings\<close>

text \<open>
  A JavaScript string is modelled as a \<^typ>\<open>string\<close>: the list of the bytes of its
  UTF-8 text.  The character classes of the regular expressions of the source
  (\<^verbatim>\<open>\d\<close>, \<^verbatim>\<open>\w\<close>, \<^verbatim>\<open>\b\<close>) are ASCII classes in JavaScript too; \<^verbatim>\<open>\s\<close>,
  \<^verbatim>\<open>trim\<close>, \<^verbatim>\<open>toLowerCase\<close> and \<^verbatim>\<open>toUpperCase\<close> are modelled on ASCII, and
  leave every other byte alone.
\<close>

definition is_digit :: "char \<Rightarrow> bool" where
  "is_digit c \<longleftrightarrow> (48::nat) \<le> of_char c \<and> of_char c \<le> (57::nat)"

definition is_upper :: "char \<Rightarrow> bool" where
  "is_upper c \<longleftrightarrow> (65::nat) \<le> of_char c \<and> of_char c \<le> (90::nat)"

definition is_lower :: "char \<Rightarrow> bool" where
  "is_lower c \<longleftrightarrow> (97::nat) \<le> of_char c \<and> of_char c \<le> (122::nat)"

definition is_word :: "char \<Rightarrow> bool" where
  "is_word c \<longleftrightarrow> is_digit c \<or> is_upper c \<or> is_lower c \<or> c = CHR ''_''"

definition is_space :: "char \<Rightarrow> bool" where
  "is_space c \<longleftrightarrow> ((9::nat) \<le> of_char c \<and> of_char c \<le> (13::nat)) \<or> c = CHR '' ''"

definition lower_char :: "char \<Rightarrow> char" where
  "lower_char c = (if is_upper c then char_of (of_char c + (32::nat)) else c)"

definition upper_char :: "char \<Rightarrow> char" where
  "upper_char c = (if is_lower c then char_of (of_char c - (32::nat)) else c)"

definition toLowerCase :: "string \<Rightarrow> string" where
  "toLowerCase s = map lower_char s"

definition toUpperCase :: "string \<Rightarrow> string" where
  "toUpperCase s = map upper_char s"

definition trim :: "string \<Rightarrow> string" where
  "trim s = rev (dropWhile is_space (rev (dropWhile is_space s)))"

text \<open>\<^verbatim>\<open>s.includes(k)\<close>: \<open>k\<close> occurs in \<open>s\<close> as a contiguous substring.\<close>

fun starts_with :: "string \<Rightarrow> string \<Rightarrow> bool" where
  "starts_with s [] = True"
| "starts_with [] (k # ks) = False"
| "starts_with (x # xs) (k # ks) = (x = k \<and> starts_with xs ks)"

fun str_includes :: "string \<Rightarrow> string \<Rightarrow> bool" where
  "str_includes [] k = (k = [])"
| "str_includes (x # xs) k = (starts_with (x # xs) k \<or> str_includes xs k)"

text \<open>
  \<^verbatim>\<open>s.split(sep)\<close> for a separator that matches exactly one character: the pieces
  between the separators, empty pieces included.
\<close>

fun split_on :: "(char \<Rightarrow> bool) \<Rightarrow> string \<Rightarrow> string list" where
  "split_on P [] = [[]]"
| "split_on P (x # xs) =
     (if P x then [] # split_on P xs
      else (case split_on P xs of [] \<Rightarrow> [[x]] | w # ws \<Rightarrow> (x # w) # ws))"

text \<open>
  \<^verbatim>\<open>s.join(' ')\<close> of a list of strings.
\<close>

fun join_sp :: "string list \<Rightarrow> string" where
  "join_sp [] = []"
| "join_sp [w] = w"
| "join_sp (w # v # ws) = w @ '' '' @ join_sp (v # ws)"

section \<open>Regular expressions\<close>

text \<open>
  The regular expressions of the source are written as values of \<open>re\<close> and run by a
  backtracking matcher that follows the ECMAScript semantics: alternatives are tried
  left to right, a quantifier is greedy and gives characters back one at a time, and a
  search takes the leftmost start position that has a match.  Every quantifier of the
  source stands on a single character class, so \<open>Rep lo hi k\<close> (from \<open>lo\<close> to \<open>hi\<close>
  characters of the class \<open>k\<close>, \<open>None\<close> for no upper bound) is all that is needed.
  \<open>Grp\<close> is the capture group number 1.
\<close>

datatype cclass = Digit | Space | OneOf "char list" | Union cclass cclass

fun in_class :: "cclass \<Rightarrow> char \<Rightarrow> bool" where
  "in_class Digit c = is_digit c"
| "in_class Space c = is_space c"
| "in_class (OneOf cs) c = (c \<in> set cs)"
| "in_class (Union a b) c = (in_class a c \<or> in_class b c)"

datatype re =
    Eps
  | Chr char
  | Cls cclass
  | Rep nat "nat option" cclass
  | Seq re re
  | Alt re re
  | WordB
  | Bol
  | Eol
  | Grp re

text \<open>
  A matcher state is the character before the current position (\<open>None\<close> at the start
  of the input) and the rest of the input.  A result carries the text of group 1, if the
  group took part in the match.
\<close>

type_synonym mstate = "char option \<times> string"
type_synonym mresult = "string option \<times> char option \<times> string"

fun rep_match :: "nat \<Rightarrow> nat option \<Rightarrow> cclass \<Rightarrow> char option \<Rightarrow> string \<Rightarrow> mstate list" where
  "rep_match lo hi k p [] = (if lo = 0 then [(p, [])] else [])"
| "rep_match lo hi k p (x # xs) =
     (if in_class k x \<and> hi \<noteq> Some 0
      then rep_match (lo - 1) (map_option (\<lambda>h. h - 1) hi) k (Some x) xs
           @ (if lo = 0 then [(p, x # xs)] else [])
      else (if lo = 0 then [(p, x # xs)] else []))"

definition word_opt :: "char option \<Rightarrow> bool" where
  "word_opt p = (case p of None \<Rightarrow> False | Some c \<Rightarrow> is_word c)"

definition next_char :: "string \<Rightarrow> char option" where
  "next_char s = (case s of [] \<Rightarrow> None | x # _ \<Rightarrow> Some x)"

fun rmatch :: "re \<Rightarrow> char option \<Rightarrow> string \<Rightarrow> mresult list" where
  "rmatch Eps p s = [(None, p, s)]"
| "rmatch (Chr c) p s =
     (case s of [] \<Rightarrow> [] | x # xs \<Rightarrow> if x = c then [(None, Some x, xs)] else [])"
| "rmatch (Cls k) p s =
     (case s of [] \<Rightarrow> [] | x # xs \<Rightarrow> if in_class k x then [(None, Some x, xs)] else [])"
| "rmatch (Rep lo hi k) p s = map (\<lambda>(p', s'). (None, p', s')) (rep_match lo hi k p s)"
| "rmatch (Seq a b) p s =
     concat (map (\<lambda>(c1, p1, s1).
        map (\<lambda>(c2, p2, s2). (case c2 of None \<Rightarrow> c1 | Some g \<Rightarrow> Some g, p2, s2)) (rmatch b p1 s1))
      (rmatch a p s))"
| "rmatch (Alt a b) p s = rmatch a p s @ rmatch b p s"
| "rmatch WordB p s = (if word_opt p \<noteq> word_opt (next_char s) then [(None, p, s)] else [])"
| "rmatch Bol p s = (if p = None then [(None, p, s)] else [])"
| "rmatch Eol p s = (if s = [] then [(None, p, s)] else [])"
| "rmatch (Grp a) p s =
     map (\<lambda>(c, p1, s1). (Some (take (length s - length s1) s), p1, s1)) (rmatch a p s)"

text \<open>The search: the first result at the leftmost position that has one.\<close>

fun rsearch :: "re \<Rightarrow> char option \<Rightarrow> string \<Rightarrow> mresult option" where
  "rsearch r p [] = (case rmatch r p [] of [] \<Rightarrow> None | m # _ \<Rightarrow> Some m)"
| "rsearch r p (x # xs) =
     (case rmatch r p (x # xs) of [] \<Rightarrow> rsearch r (Some x) xs | m # _ \<Rightarrow> Some m)"

text \<open>\<^verbatim>\<open>re.test(s)\<close>, and \<^verbatim>\<open>s.match(re)\<close> followed by \<^verbatim>\<open>[1]\<close> (\<open>None\<close> when
  there is no match or group 1 took no part in it).\<close>

definition re_test :: "re \<Rightarrow> string \<Rightarrow> bool" where
  "re_test r s = (rsearch r None s \<noteq> None)"

definition re_group1 :: "re \<Rightarrow> string \<Rightarrow> string option" where
  "re_group1 r s = (case rsearch r None s of None \<Rightarrow> None | Some (g, _, _) \<Rightarrow> g)"

text \<open>Builders: a literal word, a sequence, an optional part.\<close>

fun lit :: "string \<Rightarrow> re" where
  "lit [] = Eps"
| "lit [c] = Chr c"
| "lit (c # d # cs) = Seq (Chr c) (lit (d # cs))"

fun seqs :: "re list \<Rightarrow> re" where
  "seqs [] = Eps"
| "seqs [r] = r"
| "seqs (r # q # rs) = Seq r (seqs (q # rs))"

fun alts :: "re list \<Rightarrow> re" where
  "alts [] = Eps"
| "alts [r] = r"
| "alts (r # q # rs) = Alt r (alts (q # rs))"

definition opt :: "re \<Rightarrow> re" where
  "opt r = Alt r Eps"

text \<open>A literal under the flag \<^verbatim>\<open>i\<close>: each letter in either case.\<close>

fun lit_i :: "string \<Rightarrow> re" where
  "lit_i [] = Eps"
| "lit_i [c] = Cls (OneOf [lower_char c, upper_char c])"
| "lit_i (c # d # cs) = Seq (Cls (OneOf [lower_char c, upper_char c])) (lit_i (d # cs))"

section \<open>The category aliases of the intent classifier\<close>

text \<open>
  \<^verbatim>\<open>categoryAliases\<close> is an object literal; \<^verbatim>\<open>Object.keys\<close> lists its keys in the
  order they are written, and that order decides which alias wins, so the table is an
  association list.
\<close>

definition categoryAliases :: "(string \<times> string) list" where
  "categoryAliases =
    [(''dining'', ''Dining''),
     (''restaurant'', ''Dining''),
     (''food'', ''Dining''),
     (''groceries'', ''Groceries''),
     (''grocery'', ''Groceries''),
     (''fuel'', ''Fuel''),
     (''gas'', ''Fuel''),
     (''transportation'', ''Transportation''),
     (''taxi'', ''Transportation''),
     (''uber'', ''Transportation''),
     (''entertainment'', ''Entertainment''),
     (''health'', ''Health''),
     (''shopping'', ''Shopping''),
     (''utilities'', ''Utilities''),
     (''salary'', ''Salary''),
     (''freelance'', ''Freelance'')]"

section \<open>Numbers read from text\<close>

text \<open>
  \<^verbatim>\<open>parseInt(s, 10)\<close>: leading white space, an optional sign, then the longest run of
  decimal digits; \<open>None\<close> is \<^verbatim>\<open>NaN\<close> (no digit there).
\<close>

definition digit_val :: "char \<Rightarrow> int" where
  "digit_val c = int (of_char c) - 48"

definition decimal :: "string \<Rightarrow> int" where
  "decimal ds = foldl (\<lambda>acc c. 10 * acc + digit_val c) 0 ds"

definition parseInt10 :: "string \<Rightarrow> int option" where
  "parseInt10 s =
    (let t = dropWhile is_space s;
         neg = (t \<noteq> [] \<and> hd t = CHR ''-'');
         u = (if t \<noteq> [] \<and> (hd t = CHR ''-'' \<or> hd t = CHR ''+'') then tl t else t);
         ds = takeWhile is_digit u
     in if ds = [] then None else Some (if neg then - decimal ds else decimal ds))"

text \<open>
  \<^verbatim>\<open>parseFloat(s)\<close> on the texts that reach it in the upload routes (digits, \<^verbatim>\<open>.\<close> and
  \<^verbatim>\<open>-\<close> only, so no exponent and no \<^verbatim>\<open>Infinity\<close>): leading white space, an optional
  sign, then the longest prefix of the form digits, digits \<^verbatim>\<open>.\<close> digits or \<^verbatim>\<open>.\<close> digits.
  The value is the exact decimal, as a rational (amounts are stored as decimals); \<open>None\<close>
  is \<^verbatim>\<open>NaN\<close>.
\<close>

definition parseFloat :: "string \<Rightarrow> rat option" where
  "parseFloat s =
    (let t = dropWhile is_space s;
         neg = (t \<noteq> [] \<and> hd t = CHR ''-'');
         u = (if t \<noteq> [] \<and> (hd t = CHR ''-'' \<or> hd t = CHR ''+'') then tl t else t);
         ip = takeWhile is_digit u;
         r = dropWhile is_digit u;
         fp = (if r \<noteq> [] \<and> hd r = CHR ''.'' then takeWhile is_digit (tl r) else []);
         v = of_int (decimal ip) + of_int (decimal fp) / of_int (10 ^ length fp)
     in if ip = [] \<and> fp = [] then None else Some (if neg then - v else v))"

section \<open>Dates\<close>

text \<open>
  A \<^verbatim>\<open>Date\<close> is its time value: the milliseconds since the epoch, an \<^typ>\<open>int\<close>.  The
  local time zone is taken to be UTC, and the range limit of time values
  (\<^verbatim>\<open>TimeClip\<close>) is left out.  The calendar is the proleptic Gregorian one of
  ECMAScript: \<open>civil_from_days\<close> gives the year, the month (from 1) and the day of the
  month of a day number; \<open>DayFromYear\<close> is the day number of 1 January of a year.
\<close>

definition msPerDay :: int where
  "msPerDay = 86400000"

definition Day :: "int \<Rightarrow> int" where
  "Day t = t div msPerDay"

definition TimeWithinDay :: "int \<Rightarrow> int" where
  "TimeWithinDay t = t mod msPerDay"

definition civil_from_days :: "int \<Rightarrow> int \<times> int \<times> int" where
  "civil_from_days z0 =
    (let z = z0 + 719468;
         era = z div 146097;
         doe = z mod 146097;
         yoe = (doe - doe div 1460 + doe div 36524 - doe div 146096) div 365;
         y = yoe + era * 400;
         doy = doe - (365 * yoe + yoe div 4 - yoe div 100);
         mp = (5 * doy + 2) div 153;
         d = doy - (153 * mp + 2) div 5 + 1;
         m = (if mp < 10 then mp + 3 else mp - 9)
     in (if m \<le> 2 then y + 1 else y, m, d))"

text \<open>The getters of a date (the month counts from 0, the day of the month from 1).\<close>

definition getFullYear :: "int \<Rightarrow> int" where
  "getFullYear t = fst (civil_from_days (Day t))"

definition getMonth :: "int \<Rightarrow> int" where
  "getMonth t = fst (snd (civil_from_days (Day t))) - 1"

definition getDate :: "int \<Rightarrow> int" where
  "getDate t = snd (snd (civil_from_days (Day t)))"

text \<open>
  \<^verbatim>\<open>MakeDay\<close>, \<^verbatim>\<open>MakeTime\<close> and \<^verbatim>\<open>MakeDate\<close> of ECMAScript: a month outside 0..11
  carries into the year, a day of the month outside the month carries into the
  neighbouring months.
\<close>

definition DayFromYear :: "int \<Rightarrow> int" where
  "DayFromYear y = 365 * (y - 1970) + (y - 1969) div 4 - (y - 1901) div 100 + (y - 1601) div 400"

definition InLeapYear :: "int \<Rightarrow> bool" where
  "InLeapYear y \<longleftrightarrow> (y mod 4 = 0 \<and> y mod 100 \<noteq> 0) \<or> y mod 400 = 0"

text \<open>The number of days of a year before its month \<open>mn\<close> (from 0 to 11).\<close>

definition month_start :: "int \<Rightarrow> bool \<Rightarrow> int" where
  "month_start mn leap =
    (if mn = 0 then 0 else if mn = 1 then 31
     else (if leap then 1 else 0) +
       (if mn = 2 then 59 else if mn = 3 then 90 else if mn = 4 then 120
        else if mn = 5 then 151 else if mn = 6 then 181 else if mn = 7 then 212
        else if mn = 8 then 243 else if mn = 9 then 273 else if mn = 10 then 304
        else 334))"

definition MakeDay :: "int \<Rightarrow> int \<Rightarrow> int \<Rightarrow> int" where
  "MakeDay year month dt =
    (let ym = year + month div 12;
         mn = month mod 12
     in DayFromYear ym + month_start mn (InLeapYear ym) + dt - 1)"

definition MakeTime :: "int \<Rightarrow> int \<Rightarrow> int \<Rightarrow> int \<Rightarrow> int" where
  "MakeTime h mi s ms = h * 3600000 + mi * 60000 + s * 1000 + ms"

definition MakeDate :: "int \<Rightarrow> int \<Rightarrow> int" where
  "MakeDate day time = day * msPerDay + time"

text \<open>
  \<^verbatim>\<open>new Date(y, m, d, h, mi, s, ms)\<close>: a year from 0 to 99 means 1900 + y.
\<close>

definition new_Date :: "int \<Rightarrow> int \<Rightarrow> int \<Rightarrow> int \<Rightarrow> int \<Rightarrow> int \<Rightarrow> int \<Rightarrow> int" where
  "new_Date y m d h mi s ms =
    (let yr = (if 0 \<le> y \<and> y \<le> 99 then 1900 + y else y)
     in MakeDate (MakeDay yr m d) (MakeTime h mi s ms))"

text \<open>\<^verbatim>\<open>d.setDate(dt)\<close>: the day of the month is replaced, the time of day kept.\<close>

definition setDate :: "int \<Rightarrow> int \<Rightarrow> int" where
  "setDate t dt = MakeDate (MakeDay (getFullYear t) (getMonth t) dt) (TimeWithinDay t)"

definition toStartOfDay :: "int \<Rightarrow> int" where
  "toStartOfDay d = new_Date (getFullYear d) (getMonth d) (getDate d) 0 0 0 0"

definition toEndOfDay :: "int \<Rightarrow> int" where
  "toEndOfDay d = new_Date (getFullYear d) (getMonth d) (getDate d) 23 59 59 999"

section \<open>Date-range inference\<close>

text \<open>
  The result of \<^verbatim>\<open>parseUserDateRange\<close> is an object whose three fields are each
  present or absent.
\<close>

record date_range =
  range_start :: "int option"
  range_end :: "int option"
  range_kind :: "string option"

definition some_range :: "int \<Rightarrow> int \<Rightarrow> string \<Rightarrow> date_range" where
  "some_range s e k = \<lparr>range_start = Some s, range_end = Some e, range_kind = Some k\<rparr>"

definition no_range :: date_range where
  "no_range = \<lparr>range_start = None, range_end = None, range_kind = None\<rparr>"

text \<open>The phrase patterns, in the order the source tests them.\<close>

definition re_today :: re where
  "re_today = Grp (alts [lit ''today'', lit ''todays'',
                         seqs [lit ''to'', Rep 0 None Space, lit ''day'']])"

definition re_yesterday :: re where
  "re_yesterday = Grp (alts [lit ''yesterday'',
                             seqs [lit ''yester'', Rep 0 None Space, lit ''day'']])"

definition re_last_week :: re where
  "re_last_week = seqs [lit ''last'', Rep 0 None Space, lit ''week'']"

definition re_this_month :: re where
  "re_this_month = Grp (alts [seqs [lit ''this'', Rep 0 None Space, lit ''month''],
                              seqs [lit ''current'', Rep 0 None Space, lit ''month'']])"

definition re_last_month :: re where
  "re_last_month = seqs [lit ''last'', Rep 0 None Space, lit ''month'']"

definition re_this_year :: re where
  "re_this_year = Grp (alts [seqs [lit ''this'', Rep 0 None Space, lit ''year''],
                             seqs [lit ''current'', Rep 0 None Space, lit ''year'']])"

definition re_last_year :: re where
  "re_last_year = seqs [lit ''last'', Rep 0 None Space, lit ''year'']"

text \<open>
  The explicit date token:
  \<^verbatim>\<open>/(\b\d{1,2}[\/\-]\d{1,2}[\/\-]\d{2,4}\b|\b\d{4}[\-\/]\d{1,2}[\-\/]\d{1,2}\b)/\<close>,
  and the test for the ISO-like shape: \<^verbatim>\<open>/^\d{4}[\-\/]\d{1,2}[\-\/]\d{1,2}$/\<close>.
\<close>

definition re_date :: re where
  "re_date = Grp (Alt
     (seqs [WordB, Rep 1 (Some 2) Digit, Cls (OneOf ''/-''), Rep 1 (Some 2) Digit,
            Cls (OneOf ''/-''), Rep 2 (Some 4) Digit, WordB])
     (seqs [WordB, Rep 4 (Some 4) Digit, Cls (OneOf ''-/''), Rep 1 (Some 2) Digit,
            Cls (OneOf ''-/''), Rep 1 (Some 2) Digit, WordB]))"

definition re_iso :: re where
  "re_iso = seqs [Bol, Rep 4 (Some 4) Digit, Cls (OneOf ''-/''), Rep 1 (Some 2) Digit,
                  Cls (OneOf ''-/''), Rep 1 (Some 2) Digit, Eol]"

text \<open>
  A number that may be \<^verbatim>\<open>NaN\<close> (or \<^verbatim>\<open>undefined\<close>, which a comparison turns into
  \<^verbatim>\<open>NaN\<close>) is an \<^typ>\<open>int option\<close>; a comparison with \<^verbatim>\<open>NaN\<close> is false.
\<close>

definition nth_num :: "int option list \<Rightarrow> nat \<Rightarrow> int option" where
  "nth_num ps i = (if i < length ps then ps ! i else None)"

definition num_ge :: "int option \<Rightarrow> int \<Rightarrow> bool" where
  "num_ge x k = (case x of None \<Rightarrow> False | Some v \<Rightarrow> v \<ge> k)"

definition num_gt :: "int option \<Rightarrow> int \<Rightarrow> bool" where
  "num_gt x k = (case x of None \<Rightarrow> False | Some v \<Rightarrow> v > k)"

text \<open>\<^verbatim>\<open>new Date(c, month - 1, day)\<close>: an invalid date (\<open>None\<close>) when an argument is
  \<^verbatim>\<open>NaN\<close>.\<close>

definition new_Date3 :: "int option \<Rightarrow> int option \<Rightarrow> int option \<Rightarrow> int option" where
  "new_Date3 c month day =
    (case (c, month, day) of
       (Some cv, Some mv, Some dv) \<Rightarrow> Some (new_Date cv (mv - 1) dv 0 0 0 0)
     | _ \<Rightarrow> None)"

text \<open>
  The date of the matched token \<open>raw\<close>.  \<open>Date_parse\<close> stands for \<^verbatim>\<open>new Date(raw)\<close> on a
  string, which is the parser of the JavaScript engine: it gives a time value or an
  invalid date (\<open>None\<close>).
\<close>

definition explicit_date :: "(string \<Rightarrow> int option) \<Rightarrow> string \<Rightarrow> int option" where
  "explicit_date Date_parse raw =
    (if re_test re_iso raw then Date_parse raw
     else
       (let parts = map parseInt10 (split_on (\<lambda>ch. ch = CHR ''/'' \<or> ch = CHR ''-'') raw);
            a = nth_num parts 0;
            b = nth_num parts 1;
            c = nth_num parts 2
        in if num_ge c 100 then
             (let dayFirst = num_gt a 12;
                  day = (if dayFirst then a else b);
                  month = (if dayFirst then b else a)
              in new_Date3 c month day)
           else None))"

definition parseUserDateRange :: "(string \<Rightarrow> int option) \<Rightarrow> string \<Rightarrow> int \<Rightarrow> date_range" where
  "parseUserDateRange Date_parse message now =
    (let m = toLowerCase message;
         todayStart = toStartOfDay now;
         todayEnd = toEndOfDay now
     in
     if re_test re_today m then some_range todayStart todayEnd ''today''
     else if re_test re_yesterday m then
       (let y = setDate now (getDate now - 1)
        in some_range (toStartOfDay y) (toEndOfDay y) ''yesterday'')
     else if re_test re_last_week m then
       some_range (setDate now (getDate now - 7)) (toEndOfDay now) ''last_week''
     else if re_test re_this_month m then
       some_range (new_Date (getFullYear now) (getMonth now) 1 0 0 0 0) (toEndOfDay now)
         ''this_month''
     else if re_test re_last_month m then
       some_range (new_Date (getFullYear now) (getMonth now - 1) 1 0 0 0 0)
         (new_Date (getFullYear now) (getMonth now) 0 23 59 59 999) ''last_month''
     else if re_test re_this_year m then
       some_range (new_Date (getFullYear now) 0 1 0 0 0 0)
         (new_Date (getFullYear now) 11 31 23 59 59 999) ''this_year''
     else if re_test re_last_year m then
       (let y = getFullYear now - 1
        in some_range (new_Date y 0 1 0 0 0 0) (new_Date y 11 31 23 59 59 999) ''last_year'')
     else
       (case re_group1 re_date m of
          None \<Rightarrow> no_range
        | Some raw \<Rightarrow>
            (case explicit_date Date_parse raw of
               None \<Rightarrow> no_range
             | Some d \<Rightarrow> some_range (toStartOfDay d) (toEndOfDay d) ''specific_day'')))"

section \<open>Intent classification\<close>

datatype intent =
    count_category string
  | sum_category string
  | sum_total
  | budget_survivability
  | recommendations

definition sp1 :: re where
  "sp1 = Rep 1 None Space"

definition re_how_many_times :: re where
  "re_how_many_times = seqs [lit ''how'', sp1, lit ''many'', sp1, lit ''times'']"

definition re_how_much :: re where
  "re_how_much = seqs [lit ''how'', sp1, lit ''much'', sp1, lit ''did'', sp1, lit ''i'', sp1,
                       lit ''spend'']"

definition re_survive :: re where
  "re_survive = Grp (alts [lit ''survive'',
     seqs [lit ''within'', sp1, lit ''my'', sp1, lit ''budget''],
     seqs [lit ''under'', sp1, lit ''budget''],
     seqs [lit ''over'', sp1, lit ''budget''],
     seqs [lit ''can'', sp1, lit ''i'', sp1, lit ''make'', sp1, lit ''it'', sp1, lit ''this'', sp1,
           lit ''month'']])"

definition re_recommend :: re where
  "re_recommend = Grp (alts [lit ''recommend'', lit ''suggest'', lit ''advice'',
     seqs [lit ''how'', sp1, lit ''to'', sp1, lit ''save''], lit ''tips''])"

text \<open>The loop over \<^verbatim>\<open>Object.keys(categoryAliases)\<close>: the first key, in the order of the
  table, that the message includes.\<close>

definition find_alias :: "string \<Rightarrow> string option" where
  "find_alias m = map_option snd (find (\<lambda>kv. str_includes m (fst kv)) categoryAliases)"

definition detectIntent :: "string \<Rightarrow> intent option" where
  "detectIntent message =
    (let m = toLowerCase message in
     case (if re_test re_how_many_times m then find_alias m else None) of
       Some c \<Rightarrow> Some (count_category c)
     | None \<Rightarrow>
         if re_test re_how_much m then
           (case find_alias m of Some c \<Rightarrow> Some (sum_category c) | None \<Rightarrow> Some sum_total)
         else if re_test re_survive m then Some budget_survivability
         else if re_test re_recommend m then Some recommendations
         else None)"

section \<open>The transaction store\<close>

text \<open>
  The store is the list of the rows of the transaction table; the queries of the
  database client are functions of that list, and a write appends rows.  Amounts are
  decimals of the database, modelled as rationals.
\<close>

datatype TransactionType = INCOME | EXPENSE

record transaction =
  tx_userId :: string
  tx_type :: TransactionType
  tx_amount :: rat
  tx_category :: string
  tx_description :: "string option"
  tx_date :: int

text \<open>The \<^verbatim>\<open>where\<close> object of the chat queries: the user, and optionally a date
  range (\<^verbatim>\<open>gte\<close>, \<^verbatim>\<open>lte\<close>), a category and a type.\<close>

record where_clause =
  w_userId :: string
  w_date :: "(int \<times> int) option"
  w_category :: "string option"
  w_type :: "TransactionType option"

definition matches_where :: "where_clause \<Rightarrow> transaction \<Rightarrow> bool" where
  "matches_where w t =
    (tx_userId t = w_userId w
     \<and> (case w_date w of None \<Rightarrow> True | Some (s, e) \<Rightarrow> s \<le> tx_date t \<and> tx_date t \<le> e)
     \<and> (case w_category w of None \<Rightarrow> True | Some c \<Rightarrow> tx_category t = c)
     \<and> (case w_type w of None \<Rightarrow> True | Some ty \<Rightarrow> tx_type t = ty))"

definition find_where :: "transaction list \<Rightarrow> where_clause \<Rightarrow> transaction list" where
  "find_where store w = filter (matches_where w) store"

text \<open>\<^verbatim>\<open>prisma.transaction.count({ where })\<close>.\<close>

definition count_where :: "transaction list \<Rightarrow> where_clause \<Rightarrow> nat" where
  "count_where store w = length (find_where store w)"

text \<open>\<^verbatim>\<open>prisma.transaction.groupBy({ by: ['type'], where, _sum: { amount: true } })\<close>:
  one row for each type that occurs among the matching transactions, with the sum of
  their amounts.\<close>

definition groupBy_type :: "transaction list \<Rightarrow> where_clause \<Rightarrow> (TransactionType \<times> rat) list" where
  "groupBy_type store w =
    (let rows = find_where store w
     in map (\<lambda>ty. (ty, sum_list (map tx_amount (filter (\<lambda>t. tx_type t = ty) rows))))
          (remdups (map tx_type rows)))"

text \<open>\<^verbatim>\<open>prisma.transaction.aggregate({ where, _sum: { amount: true } })\<close>: the sum is
  \<^verbatim>\<open>null\<close> when no transaction matches.\<close>

definition aggregate_sum :: "transaction list \<Rightarrow> where_clause \<Rightarrow> rat option" where
  "aggregate_sum store w =
    (let rows = find_where store w
     in if rows = [] then None else Some (sum_list (map tx_amount rows)))"

section \<open>The local insight engine\<close>

text \<open>Pieces of text outside the ASCII range, as UTF-8 bytes, and the apostrophe.\<close>

definition rupee :: string where
  "rupee = [CHR 0xE2, CHR 0x82, CHR 0xB9]"

definition le_sign :: string where
  "le_sign = [CHR 0xE2, CHR 0x89, CHR 0xA4]"

definition en_dash :: string where
  "en_dash = [CHR 0xE2, CHR 0x80, CHR 0x93]"

definition apos :: string where
  "apos = [CHR 0x27]"

text \<open>A natural number in decimal, as a template literal prints it.\<close>

fun show_nat :: "nat \<Rightarrow> string" where
  "show_nat n =
    (if n < 10 then [char_of (48 + n)] else show_nat (n div 10) @ [char_of (48 + n mod 10)])"

definition show_int :: "int \<Rightarrow> string" where
  "show_int i = (if i < 0 then ''-'' @ show_nat (nat (- i)) else show_nat (nat i))"

text \<open>\<^verbatim>\<open>k.replace('_', ' ')\<close>: the first underscore only.\<close>

fun replace_underscore :: "string \<Rightarrow> string" where
  "replace_underscore [] = []"
| "replace_underscore (c # cs) = (if c = CHR ''_'' then CHR '' '' # cs else c # replace_underscore cs)"

definition rangeLabel :: "date_range \<Rightarrow> string" where
  "rangeLabel inferred =
    (case range_kind inferred of
       None \<Rightarrow> ''all time''
     | Some k \<Rightarrow> if k = [] then ''all time'' else replace_underscore k)"

text \<open>The \<^verbatim>\<open>where\<close> object of the local answers: the user, the inferred range when both
  of its bounds are present, and the category for the two category intents.\<close>

definition local_where :: "string \<Rightarrow> date_range \<Rightarrow> intent \<Rightarrow> where_clause" where
  "local_where userId inferred i =
    \<lparr>w_userId = userId,
     w_date = (case (range_start inferred, range_end inferred) of
                 (Some s, Some e) \<Rightarrow> Some (s, e) | _ \<Rightarrow> None),
     w_category = (case i of count_category c \<Rightarrow> Some c | sum_category c \<Rightarrow> Some c | _ \<Rightarrow> None),
     w_type = None\<rparr>"

text \<open>\<^verbatim>\<open>rows.find(r => r.type === 'EXPENSE')?._sum.amount ?? 0\<close>.\<close>

definition expense_sum :: "(TransactionType \<times> rat) list \<Rightarrow> rat" where
  "expense_sum rows = (case find (\<lambda>r. fst r = EXPENSE) rows of None \<Rightarrow> 0 | Some r \<Rightarrow> snd r)"

text \<open>
  The figures of the budget branch, which always looks at the calendar month of \<open>now\<close>.
  \<open>budget\<close> is the stored \<^verbatim>\<open>monthlyBudget\<close> of the user (\<open>None\<close> when the user or the
  value is missing).
\<close>

record budget_figures =
  monthlyBudget :: rat
  spent :: rat
  daysLeft :: int
  avgPerDaySoFar :: rat
  neededPerDay :: rat
  canSurvive :: bool

definition budget_figures_of :: "rat option \<Rightarrow> transaction list \<Rightarrow> int \<Rightarrow> string \<Rightarrow> budget_figures" where
  "budget_figures_of budget store now userId =
    (let start = new_Date (getFullYear now) (getMonth now) 1 0 0 0 0;
         end_of_month = new_Date (getFullYear now) (getMonth now + 1) 0 23 59 59 999;
         agg = aggregate_sum store
                 \<lparr>w_userId = userId, w_date = Some (start, end_of_month), w_category = None,
                  w_type = Some EXPENSE\<rparr>;
         mb = (case budget of None \<Rightarrow> 0 | Some b \<Rightarrow> b);
         sp = (case agg of None \<Rightarrow> 0 | Some v \<Rightarrow> v);
         remaining = max 0 (mb - sp);
         daysInMonth = getDate (new_Date (getFullYear now) (getMonth now + 1) 0 0 0 0 0);
         dayOfMonth = getDate now;
         dl = max 0 (daysInMonth - dayOfMonth)
     in \<lparr>monthlyBudget = mb,
         spent = sp,
         daysLeft = dl,
         avgPerDaySoFar = (if dayOfMonth > 0 then sp / of_int dayOfMonth else 0),
         neededPerDay = (if dl > 0 then remaining / of_int dl else 0),
         canSurvive = (if mb > 0 then sp \<le> mb else False)\<rparr>)"

text \<open>
  The reply of each intent.  \<open>toFixed2\<close> stands for \<^verbatim>\<open>x.toFixed(2)\<close>, the number
  formatting of the JavaScript engine.
\<close>

definition budget_reply :: "(rat \<Rightarrow> string) \<Rightarrow> budget_figures \<Rightarrow> string" where
  "budget_reply toFixed2 f =
    (if monthlyBudget f > 0 then
       ''This month you'' @ apos @ ''ve spent '' @ rupee @ toFixed2 (spent f) @ '' of your ''
       @ rupee @ toFixed2 (monthlyBudget f) @ '' budget. ''
       @ (if canSurvive f then ''Yes'' else ''No'') @ '', you ''
       @ (if canSurvive f then ''are currently within'' else ''are over'')
       @ '' budget. To stay within budget, target about '' @ rupee @ toFixed2 (neededPerDay f)
       @ '' per day for the remaining '' @ show_int (daysLeft f) @ '' day(s).''
     else
       ''You haven'' @ apos @ ''t set a monthly budget yet. So far this month you'' @ apos
       @ ''ve spent '' @ rupee @ toFixed2 (spent f) @ ''.'')"

definition tips :: "(rat \<Rightarrow> string) \<Rightarrow> budget_figures \<Rightarrow> string list" where
  "tips toFixed2 f =
    (if monthlyBudget f > 0 then
       [''Target '' @ le_sign @ '' '' @ rupee @ toFixed2 (neededPerDay f)
        @ '' per day for the remaining '' @ show_int (daysLeft f) @ '' day(s).'']
     else [])
    @ (if avgPerDaySoFar f > 0 then
       [''Your average daily spend so far is '' @ rupee @ toFixed2 (avgPerDaySoFar f)
        @ ''. Cut discretionary categories by 10'' @ en_dash @ ''15% to meet target.'']
     else [])
    @ [''Review top categories and reduce the largest 1'' @ en_dash
       @ ''2 by setting weekly caps.'',
       ''Delay non-urgent purchases to next month.'']"

definition recommendations_reply :: "(rat \<Rightarrow> string) \<Rightarrow> budget_figures \<Rightarrow> string" where
  "recommendations_reply toFixed2 f = ''Suggestions based on your data: '' @ join_sp (tips toFixed2 f)"

definition local_answer ::
  "(rat \<Rightarrow> string) \<Rightarrow> rat option \<Rightarrow> transaction list \<Rightarrow> int \<Rightarrow> string \<Rightarrow> date_range
     \<Rightarrow> intent \<Rightarrow> string" where
  "local_answer toFixed2 budget store now userId inferred i =
    (case i of
       count_category c \<Rightarrow>
         ''You went for '' @ c @ '' ''
         @ show_nat (count_where store (local_where userId inferred i))
         @ '' time(s) '' @ rangeLabel inferred @ ''.''
     | sum_category c \<Rightarrow>
         ''You spent '' @ rupee
         @ toFixed2 (expense_sum (groupBy_type store (local_where userId inferred i)))
         @ '' on '' @ c @ '' '' @ rangeLabel inferred @ ''.''
     | sum_total \<Rightarrow>
         ''You spent a total of '' @ rupee
         @ toFixed2 (expense_sum (groupBy_type store (local_where userId inferred i)))
         @ '' '' @ rangeLabel inferred @ ''.''
     | budget_survivability \<Rightarrow>
         budget_reply toFixed2 (budget_figures_of budget store now userId)
     | recommendations \<Rightarrow>
         recommendations_reply toFixed2 (budget_figures_of budget store now userId))"

section \<open>The chat query route\<close>

text \<open>
  The external AI service is reached by \<^verbatim>\<open>fetch\<close>.  A call throws (no response at
  all) or gives a response: its HTTP status and the text found at
  \<^verbatim>\<open>candidates[0].content.parts[0].text\<close> of its body, if any.  \<open>fetch n\<close> is what the
  \<open>n\<close>-th call of a request gets.  The handler's effects on the outside are listed in the
  order they happen.
\<close>

datatype fetch_result = Throws | Response nat "string option"

datatype effect = Fetch | Sleep nat

text \<open>
  What the route sends back: a local reply (\<^verbatim>\<open>transactions: null\<close>), the answer made
  from the text of the AI service (the removal of code fences and the JSON parsing of that
  text are not modelled), or an error status with its message (for status 400 the source
  sends the list of validation errors, which is not modelled).
\<close>

datatype chat_response = Reply string | AiAnswer string | Failure nat string

definition response_ok :: "nat \<Rightarrow> bool" where
  "response_ok status = (200 \<le> status \<and> status \<le> 299)"

definition after_fetch :: "nat \<Rightarrow> string option \<Rightarrow> chat_response" where
  "after_fetch status aiText =
    (if \<not> response_ok status then Failure 500 ''AI request failed''
     else (case aiText of
             None \<Rightarrow> Failure 500 ''Empty AI response''
           | Some t \<Rightarrow> if t = [] then Failure 500 ''Empty AI response'' else AiAnswer t))"

definition ai_fallback :: "(nat \<Rightarrow> fetch_result) \<Rightarrow> chat_response \<times> effect list" where
  "ai_fallback fetch =
    (case fetch 0 of
       Throws \<Rightarrow> (Failure 500 ''Internal error'', [Fetch])
     | Response status aiText \<Rightarrow>
         if \<not> response_ok status \<and> status = 503 then
           (case fetch 1 of
              Throws \<Rightarrow> (Failure 500 ''Internal error'', [Fetch, Sleep 600, Fetch])
            | Response status2 aiText2 \<Rightarrow>
                (after_fetch status2 aiText2, [Fetch, Sleep 600, Fetch]))
         else (after_fetch status aiText, [Fetch]))"

text \<open>
  \<^verbatim>\<open>POST /query\<close>.  \<open>body\<close> is the \<^verbatim>\<open>message\<close> of the request body when it is a string,
  \<open>GEMINI_API_KEY\<close> the environment variable.  The context and the prompt that the handler
  builds for the AI service only read the store and are not modelled; the clock is read
  once.
\<close>

definition post_query ::
  "(rat \<Rightarrow> string) \<Rightarrow> (string \<Rightarrow> int option) \<Rightarrow> string option \<Rightarrow> rat option
     \<Rightarrow> transaction list \<Rightarrow> (nat \<Rightarrow> fetch_result) \<Rightarrow> int \<Rightarrow> string \<Rightarrow> string option
     \<Rightarrow> chat_response \<times> effect list" where
  "post_query toFixed2 Date_parse GEMINI_API_KEY budget store fetch now userId body =
    (case body of
       None \<Rightarrow> (Failure 400 ''invalid request body'', [])
     | Some message \<Rightarrow>
         if message = [] then (Failure 400 ''invalid request body'', [])
         else if GEMINI_API_KEY = None \<or> GEMINI_API_KEY = Some [] then
           (Failure 500 ''GEMINI_API_KEY not configured'', [])
         else
           (case detectIntent message of
              Some i \<Rightarrow>
                (Reply (local_answer toFixed2 budget store now userId
                          (parseUserDateRange Date_parse message now) i), [])
            | None \<Rightarrow> ai_fallback fetch))"

section \<open>The upload routes\<close>

text \<open>\<^verbatim>\<open>text.split(/\r?\n/)\<close>: the text is cut at every line feed, and a carriage return
  right before it goes with it.\<close>

fun split_lines :: "string \<Rightarrow> string list" where
  "split_lines [] = [[]]"
| "split_lines [c] = (if c = CHR 0x0A then [[], []] else [[c]])"
| "split_lines (c # d # cs) =
     (if c = CHR 0x0A then [] # split_lines (d # cs)
      else if c = CHR 0x0D \<and> d = CHR 0x0A then [] # split_lines cs
      else (case split_lines (d # cs) of [] \<Rightarrow> [[c]] | w # ws \<Rightarrow> (c # w) # ws))"

text \<open>\<^verbatim>\<open>text.split(/\r?\n/).map((l) => l.trim()).filter(Boolean)\<close>.\<close>

definition text_lines :: "string \<Rightarrow> string list" where
  "text_lines t = filter (\<lambda>l. l \<noteq> []) (map trim (split_lines t))"

subsection \<open>The heuristic receipt line scan\<close>

text \<open>The amount patterns: \<^verbatim>\<open>/(?:\$)?([0-9]+(?:\.[0-9]{2})?)/\<close>,
  \<^verbatim>\<open>/([0-9]+(?:\.[0-9]{2})?)\s*(?:USD|usd)/\<close>,
  \<^verbatim>\<open>/total[:\s]*(?:\$)?([0-9]+(?:\.[0-9]{2})?)/i\<close> and
  \<^verbatim>\<open>/amount[:\s]*(?:\$)?([0-9]+(?:\.[0-9]{2})?)/i\<close>.\<close>

definition re_number :: re where
  "re_number = Grp (Seq (Rep 1 None Digit) (opt (Seq (Chr CHR ''.'') (Rep 2 (Some 2) Digit))))"

definition amountPatterns :: "re list" where
  "amountPatterns =
    [Seq (opt (Chr CHR ''$'')) re_number,
     seqs [re_number, Rep 0 None Space, Alt (lit ''USD'') (lit ''usd'')],
     seqs [lit_i ''total'', Rep 0 None (Union (OneOf '':'') Space), opt (Chr CHR ''$''), re_number],
     seqs [lit_i ''amount'', Rep 0 None (Union (OneOf '':'') Space), opt (Chr CHR ''$''), re_number]]"

text \<open>The loop over the patterns: the first pattern that matches the line with a
  number above 0 gives the amount.\<close>

fun first_amount :: "re list \<Rightarrow> string \<Rightarrow> rat option" where
  "first_amount [] line = None"
| "first_amount (pattern # ps) line =
     (case rsearch pattern None line of
        None \<Rightarrow> first_amount ps line
      | Some (g, _, _) \<Rightarrow>
          (case (case g of None \<Rightarrow> None | Some txt \<Rightarrow> parseFloat txt) of
             None \<Rightarrow> first_amount ps line
           | Some v \<Rightarrow> if v > 0 then Some v else first_amount ps line))"

definition any_includes :: "string \<Rightarrow> string list \<Rightarrow> bool" where
  "any_includes l ks = list_ex (str_includes l) ks"

definition line_category :: "string \<Rightarrow> string" where
  "line_category line =
    (let l = toLowerCase line in
     if any_includes l [''grocery'', ''market'', ''food'', ''supermarket'', ''store''] then ''Groceries''
     else if any_includes l [''fuel'', ''gas'', ''petrol'', ''station''] then ''Fuel''
     else if any_includes l [''pharmacy'', ''medicine'', ''drug'', ''health''] then ''Health''
     else if any_includes l [''restaurant'', ''cafe'', ''dining'', ''food''] then ''Dining''
     else if any_includes l [''transport'', ''taxi'', ''uber'', ''bus''] then ''Transportation''
     else if any_includes l [''entertainment'', ''movie'', ''cinema'', ''game''] then ''Entertainment''
     else ''Uncategorized'')"

text \<open>A candidate: what an extraction makes of a line, before it is a row of the store.\<close>

record candidate =
  c_amount :: rat
  c_category :: string
  c_description :: string
  c_date :: int
  c_type :: TransactionType

fun scan_lines :: "int \<Rightarrow> string list \<Rightarrow> candidate list" where
  "scan_lines now [] = []"
| "scan_lines now (line # ls) =
     (case first_amount amountPatterns line of
        None \<Rightarrow> scan_lines now ls
      | Some a \<Rightarrow>
          \<lparr>c_amount = a, c_category = line_category line, c_description = line, c_date = now,
           c_type = EXPENSE\<rparr> # scan_lines now ls)"

definition extractTransactionsFromText :: "string \<Rightarrow> int \<Rightarrow> candidate list" where
  "extractTransactionsFromText t now = scan_lines now (text_lines t)"

text \<open>\<^verbatim>\<open>prisma.transaction.create\<close> of a candidate for a user.\<close>

definition create_row :: "string \<Rightarrow> candidate \<Rightarrow> transaction" where
  "create_row userId i =
    \<lparr>tx_userId = userId, tx_type = c_type i, tx_amount = c_amount i, tx_category = c_category i,
     tx_description = Some (c_description i), tx_date = c_date i\<rparr>"

text \<open>
  An uploaded file: its MIME type, and the text that the PDF parser (for
  \<^verbatim>\<open>application/pdf\<close>) or the OCR worker (for any other type) gets out of its bytes,
  \<open>None\<close> when that step throws.
\<close>

record upload_file =
  mimetype :: string
  extracted :: "string option"

datatype upload_response =
    Upload_error nat string
  | Receipt_imported nat "transaction list"
  | Statement_imported nat nat "string list"

text \<open>\<^verbatim>\<open>POST /receipt\<close>: the response, and the store after the request.\<close>

definition post_receipt ::
  "int \<Rightarrow> string \<Rightarrow> upload_file option \<Rightarrow> transaction list \<Rightarrow> upload_response \<times> transaction list" where
  "post_receipt now userId file store =
    (case file of
       None \<Rightarrow> (Upload_error 400 ''No file uploaded'', store)
     | Some f \<Rightarrow>
         (case extracted f of
            None \<Rightarrow>
              (Upload_error 500
                 (if mimetype f = ''application/pdf'' then ''Failed to parse PDF file''
                  else ''Failed to process image with OCR''), store)
          | Some t \<Rightarrow>
              if t = [] \<or> trim t = [] then
                (Upload_error 400 ''No text could be extracted from the file'', store)
              else
                (let items = extractTransactionsFromText t now in
                 if items = [] then (Receipt_imported 0 [], store)
                 else
                   (let created = map (create_row userId) items
                    in (Receipt_imported (length created) created, store @ created)))))"

subsection \<open>The tabular statement parser\<close>

text \<open>\<^verbatim>\<open>s.split(/\s+/)\<close>: the text is cut at every maximal run of white space.\<close>

function split_ws :: "string \<Rightarrow> string list" where
  "split_ws [] = [[]]"
| "split_ws (c # cs) =
     (if is_space c then [] # split_ws (dropWhile is_space cs)
      else (case split_ws cs of [] \<Rightarrow> [[c]] | w # ws \<Rightarrow> (c # w) # ws))"
  by pat_completeness auto
termination
  by (relation "measure length") (auto simp: length_dropWhile_le le_imp_less_Suc)

text \<open>\<^verbatim>\<open>line.trim().split(/\s+/).filter(Boolean)\<close>.\<close>

definition line_parts :: "string \<Rightarrow> string list" where
  "line_parts line = filter (\<lambda>w. w \<noteq> []) (split_ws (trim line))"

text \<open>The date test \<^verbatim>\<open>/\d{4}[-/]\d{1,2}[-/]\d{1,2}/\<close> (not anchored), and
  \<^verbatim>\<open>amount.replace(/[^0-9.\-]/g, '')\<close>.\<close>

definition re_stmt_date :: re where
  "re_stmt_date = seqs [Rep 4 (Some 4) Digit, Cls (OneOf ''-/''), Rep 1 (Some 2) Digit,
                        Cls (OneOf ''-/''), Rep 1 (Some 2) Digit]"

definition clean_amount :: "string \<Rightarrow> string" where
  "clean_amount a = filter (\<lambda>c. is_digit c \<or> c = CHR ''.'' \<or> c = CHR ''-'') a"

record statement_row =
  s_date :: string
  s_description :: string
  s_category :: string
  s_amount :: string
  s_type :: string

definition parseStatementLine :: "string \<Rightarrow> statement_row option" where
  "parseStatementLine line =
    (let parts = line_parts line;
         n = length parts
     in
     if n < 5 then None
     else
       (let ty = toUpperCase (parts ! (n - 1)) in
        if ty \<noteq> ''INCOME'' \<and> ty \<noteq> ''EXPENSE'' then None
        else
          (let amount = parts ! (n - 2);
               cleanAmount = clean_amount amount
           in
           if parseFloat cleanAmount = None then None
           else
             (let date = parts ! 0 in
              if \<not> re_test re_stmt_date date then None
              else
                (let category = parts ! (n - 3);
                     description = join_sp (take (n - 4) (drop 1 parts))
                 in
                 if description = [] then None
                 else Some \<lparr>s_date = date, s_description = description, s_category = category,
                            s_amount = cleanAmount, s_type = ty\<rparr>)))))"

text \<open>
  The loop of \<^verbatim>\<open>POST /statement\<close> over the lines, from line number \<open>i + 1\<close> on: the
  parsed candidates and the error messages.  A line that \<^verbatim>\<open>parseStatementLine\<close>
  rejects is skipped without a message.
\<close>

fun statement_loop :: "(string \<Rightarrow> int option) \<Rightarrow> nat \<Rightarrow> string list \<Rightarrow> candidate list \<times> string list" where
  "statement_loop Date_parse i [] = ([], [])"
| "statement_loop Date_parse i (line # ls) =
     (let (parsed, errors) = statement_loop Date_parse (i + 1) ls in
      case parseStatementLine line of
        None \<Rightarrow> (parsed, errors)
      | Some result \<Rightarrow>
          (case Date_parse (s_date result) of
             None \<Rightarrow> (parsed, (''Line '' @ show_nat (i + 1) @ '': Invalid date format'') # errors)
           | Some parsedDate \<Rightarrow>
               (case parseFloat (s_amount result) of
                  None \<Rightarrow> (parsed, (''Line '' @ show_nat (i + 1) @ '': Invalid amount'') # errors)
                | Some parsedAmount \<Rightarrow>
                    (\<lparr>c_amount = parsedAmount, c_category = s_category result,
                      c_description = s_description result, c_date = parsedDate,
                      c_type = (if s_type result = ''INCOME'' then INCOME else EXPENSE)\<rparr>
                     # parsed, errors))))"

text \<open>\<^verbatim>\<open>POST /statement\<close>: the response, and the store after the request.\<close>

definition post_statement ::
  "(string \<Rightarrow> int option) \<Rightarrow> string \<Rightarrow> upload_file option \<Rightarrow> transaction list
     \<Rightarrow> upload_response \<times> transaction list" where
  "post_statement Date_parse userId file store =
    (case file of
       None \<Rightarrow> (Upload_error 400 ''No file uploaded'', store)
     | Some f \<Rightarrow>
         if mimetype f \<noteq> ''application/pdf'' then
           (Upload_error 400 ''Only PDF files are supported for statement import'', store)
         else
           (case extracted f of
              None \<Rightarrow> (Upload_error 500 ''Failed to parse PDF file'', store)
            | Some extractedText \<Rightarrow>
                if extractedText = [] \<or> trim extractedText = [] then
                  (Upload_error 400 ''No text could be extracted from PDF'', store)
                else
                  (let lines = text_lines extractedText;
                       (parsed, errors) = statement_loop Date_parse 0 lines
                   in
                   if parsed = [] then
                     (Upload_error 400 ''No valid transactions found in PDF'', store)
                   else
                     (let created = map (create_row userId) parsed
                      in (Statement_imported (length created) (length lines - length parsed)
                            (take 10 errors),
                          store @ created)))))"

subsection \<open>Validated creation paths\<close>

text \<open>
  \<^verbatim>\<open>POST /ai-receipt/confirm\<close> takes the transactions that the user has reviewed.
  \<^verbatim>\<open>confirmSchema\<close> asks for a positive amount and a type that is \<^verbatim>\<open>INCOME\<close> or
  \<^verbatim>\<open>EXPENSE\<close>; a body that fails it is answered with 400 and nothing is written.  A
  date that does not parse makes the write fail as a whole.
\<close>

record confirm_item =
  ci_date :: string
  ci_description :: string
  ci_category :: string
  ci_amount :: rat
  ci_type :: string

definition confirmSchema :: "confirm_item list \<Rightarrow> bool" where
  "confirmSchema ts =
    list_all (\<lambda>t. ci_amount t > 0 \<and> (ci_type t = ''INCOME'' \<or> ci_type t = ''EXPENSE'')) ts"

definition confirm_row :: "(string \<Rightarrow> int option) \<Rightarrow> string \<Rightarrow> confirm_item \<Rightarrow> transaction option" where
  "confirm_row Date_parse userId t =
    (case Date_parse (ci_date t) of
       None \<Rightarrow> None
     | Some d \<Rightarrow>
         Some \<lparr>tx_userId = userId,
               tx_type = (if ci_type t = ''INCOME'' then INCOME else EXPENSE),
               tx_amount = ci_amount t, tx_category = ci_category t,
               tx_description = Some (ci_description t), tx_date = d\<rparr>)"

definition post_confirm ::
  "(string \<Rightarrow> int option) \<Rightarrow> string \<Rightarrow> confirm_item list \<Rightarrow> transaction list
     \<Rightarrow> upload_response \<times> transaction list" where
  "post_confirm Date_parse userId ts store =
    (if \<not> confirmSchema ts then (Upload_error 400 ''invalid request body'', store)
     else
       (let rows = map (confirm_row Date_parse userId) ts in
        if list_ex (\<lambda>r. r = None) rows then (Upload_error 500 ''Failed to save transactions'', store)
        else
          (let created = map the rows
           in (Receipt_imported (length created) created, store @ created))))"

section \<open>Notions used to state the properties\<close>

text \<open>The sum of the amounts of the transactions of type \<^verbatim>\<open>EXPENSE\<close> that match a
  \<^verbatim>\<open>where\<close> object.\<close>

definition expense_total :: "transaction list \<Rightarrow> where_clause \<Rightarrow> rat" where
  "expense_total store w =
    sum_list (map tx_amount (filter (\<lambda>t. tx_type t = EXPENSE) (find_where store w)))"

text \<open>
  An instance of \<open>toFixed2\<close> for the examples: two decimals of the exact value, a half
  rounded away from zero.
\<close>

definition toFixed2_exact :: "rat \<Rightarrow> string" where
  "toFixed2_exact x =
    (let n = \<lfloor>\<bar>x\<bar> * 100 + 1 / 2\<rfloor>;
         cents = n mod 100
     in (if x < 0 \<and> n \<noteq> 0 then ''-'' else '''') @ show_int (n div 100) @ ''.''
        @ (if cents < 10 then ''0'' else '''') @ show_int cents)"

text \<open>An instance of \<open>Date_parse\<close> for the examples: it knows one date, 15 January 2024.\<close>

definition Date_parse_example :: "string \<Rightarrow> int option" where
  "Date_parse_example s = (if s = ''2024-01-15'' then Some 1705276800000 else None)"

text \<open>A store of one user with two expenses and one income.\<close>

definition example_store :: "transaction list" where
  "example_store =
    [\<lparr>tx_userId = ''u1'', tx_type = EXPENSE, tx_amount = 25 / 2, tx_category = ''Dining'',
      tx_description = Some ''Coffee Shop'', tx_date = 1705276800000\<rparr>,
     \<lparr>tx_userId = ''u1'', tx_type = INCOME, tx_amount = 1000, tx_category = ''Salary'',
      tx_description = None, tx_date = 1705276800000\<rparr>,
     \<lparr>tx_userId = ''u1'', tx_type = EXPENSE, tx_amount = 30, tx_category = ''Fuel'',
      tx_description = None, tx_date = 1705363200000\<rparr>]"


text \<open>None of the phrase patterns of the date-range inference matches.\<close>

definition no_phrase_match :: "string \<Rightarrow> bool" where
  "no_phrase_match m \<longleftrightarrow>
    \<not> re_test re_today m \<and> \<not> re_test re_yesterday m \<and> \<not> re_test re_last_week m
    \<and> \<not> re_test re_this_month m \<and> \<not> re_test re_last_month m \<and> \<not> re_test re_this_year m
    \<and> \<not> re_test re_last_year m"

text \<open>Every match of the expression starts with a character that satisfies \<open>P\<close>
  (a sufficient test on the shape of the expression).\<close>

fun needs_first :: "re \<Rightarrow> (char \<Rightarrow> bool) \<Rightarrow> bool" where
  "needs_first (Chr c) P = P c"
| "needs_first (Seq a b) P = needs_first a P"
| "needs_first (Alt a b) P = (needs_first a P \<and> needs_first b P)"
| "needs_first (Grp a) P = needs_first a P"
| "needs_first r P = False"

section \<open>Properties\<close>

subsection \<open>The alias table\<close>

text \<open>
  C10 (as found in the source).  The category-alias table of the intent classifier has
  sixteen input aliases, no alias twice, and they map onto ten canonical categories:
  Dining, Groceries, Fuel, Transportation, Entertainment, Health, Shopping, Utilities,
  Salary and Freelance.
\<close>

theorem categoryAliases_size:
  "length categoryAliases = 16 \<and> distinct (map fst categoryAliases)
   \<and> remdups (map snd categoryAliases) =
       [''Dining'', ''Groceries'', ''Fuel'', ''Transportation'', ''Entertainment'', ''Health'',
        ''Shopping'', ''Utilities'', ''Salary'', ''Freelance'']
   \<and> card (snd ` set categoryAliases) = 10"
  by (simp add: categoryAliases_def)

text \<open>The table does not have eleven aliases, and they do not map onto nine categories.\<close>

theorem categoryAliases_not_11_9:
  "\<not> (length categoryAliases = 11 \<and> card (snd ` set categoryAliases) = 9)"
  by (simp add: categoryAliases_def)

subsection \<open>The statement-line parser\<close>



subsection \<open>Sums of the local insight engine\<close>

lemma find_keyed:
  "find (\<lambda>r. fst r = k) (map (\<lambda>ty. (ty, g ty)) tys) = (if k \<in> set tys then Some (k, g k) else None)"
  by (induction tys) auto

text \<open>The \<^verbatim>\<open>EXPENSE\<close> row of the grouping carries the sum of the matching expenses, and
  when there is no such row there is no matching expense.\<close>

lemma expense_sum_groupBy:
  "expense_sum (groupBy_type store w) = expense_total store w"
proof -
  let ?rows = "find_where store w"
  show ?thesis
  proof (cases "EXPENSE \<in> set (map tx_type ?rows)")
    case True
    then show ?thesis
      unfolding expense_sum_def groupBy_type_def expense_total_def Let_def find_keyed
      by simp
  next
    case False
    then have "filter (\<lambda>t. tx_type t = EXPENSE) ?rows = []"
      by (force simp: filter_empty_conv)
    with False show ?thesis
      unfolding expense_sum_def groupBy_type_def expense_total_def Let_def find_keyed
      by simp
  qed
qed

lemma expense_total_cong:
  assumes "filter (\<lambda>t. tx_type t = EXPENSE) store' = filter (\<lambda>t. tx_type t = EXPENSE) store"
  shows "expense_total store' w = expense_total store w"
proof -
  have sw: "filter (\<lambda>t. tx_type t = EXPENSE) (find_where s w)
              = filter (matches_where w) (filter (\<lambda>t. tx_type t = EXPENSE) s)" for s
    by (simp add: find_where_def conj_commute)
  show ?thesis
    unfolding expense_total_def sw assms ..
qed

text \<open>
  C5.  For every user, date range and store, the local answers to SumTotal and to
  SumCategory report the sum of the amounts of the matching transactions of type
  \<^verbatim>\<open>EXPENSE\<close> only: two stores with the same \<^verbatim>\<open>EXPENSE\<close> rows get the same answer,
  whatever their \<^verbatim>\<open>INCOME\<close> rows are.
\<close>

theorem sum_answers_expense_only:
  "local_answer toFixed2 budget store now userId inferred sum_total =
     ''You spent a total of '' @ rupee
     @ toFixed2 (expense_total store (local_where userId inferred sum_total))
     @ '' '' @ rangeLabel inferred @ ''.''
   \<and> local_answer toFixed2 budget store now userId inferred (sum_category c) =
     ''You spent '' @ rupee
     @ toFixed2 (expense_total store (local_where userId inferred (sum_category c)))
     @ '' on '' @ c @ '' '' @ rangeLabel inferred @ ''.''
   \<and> (\<forall>store'. filter (\<lambda>t. tx_type t = EXPENSE) store' = filter (\<lambda>t. tx_type t = EXPENSE) store
        \<longrightarrow> local_answer toFixed2 budget store' now userId inferred sum_total
            = local_answer toFixed2 budget store now userId inferred sum_total
          \<and> local_answer toFixed2 budget store' now userId inferred (sum_category c)
            = local_answer toFixed2 budget store now userId inferred (sum_category c))"
proof (intro conjI allI impI)
  show "local_answer toFixed2 budget store now userId inferred sum_total =
     ''You spent a total of '' @ rupee
     @ toFixed2 (expense_total store (local_where userId inferred sum_total))
     @ '' '' @ rangeLabel inferred @ ''.''"
    by (simp add: local_answer_def expense_sum_groupBy)
  show "local_answer toFixed2 budget store now userId inferred (sum_category c) =
     ''You spent '' @ rupee
     @ toFixed2 (expense_total store (local_where userId inferred (sum_category c)))
     @ '' on '' @ c @ '' '' @ rangeLabel inferred @ ''.''"
    by (simp add: local_answer_def expense_sum_groupBy)
next
  fix store'
  assume h: "filter (\<lambda>t. tx_type t = EXPENSE) store' = filter (\<lambda>t. tx_type t = EXPENSE) store"
  show "local_answer toFixed2 budget store' now userId inferred sum_total
            = local_answer toFixed2 budget store now userId inferred sum_total"
    by (simp add: local_answer_def expense_sum_groupBy expense_total_cong [OF h])
  show "local_answer toFixed2 budget store' now userId inferred (sum_category c)
            = local_answer toFixed2 budget store now userId inferred (sum_category c)"
    by (simp add: local_answer_def expense_sum_groupBy expense_total_cong [OF h])
qed

text \<open>
  The example store has an income of 1000 beside expenses of 12.50 and 30: the total
  reported is 42.50, and it is the total of the store without the income.
\<close>

theorem sum_answers_expense_only_witness:
  "filter (\<lambda>t. tx_type t = EXPENSE) (filter (\<lambda>t. tx_type t = EXPENSE) example_store)
     = filter (\<lambda>t. tx_type t = EXPENSE) example_store
   \<and> filter (\<lambda>t. tx_type t = INCOME) example_store \<noteq> []
   \<and> local_answer toFixed2_exact None (filter (\<lambda>t. tx_type t = EXPENSE) example_store) 0 ''u1''
        no_range sum_total
      = local_answer toFixed2_exact None example_store 0 ''u1'' no_range sum_total
   \<and> local_answer toFixed2_exact None example_store 0 ''u1'' no_range sum_total
      = ''You spent a total of '' @ rupee @ ''42.50 all time.''"
proof -
  have same: "filter (\<lambda>t. tx_type t = EXPENSE) (filter (\<lambda>t. tx_type t = EXPENSE) example_store)
     = filter (\<lambda>t. tx_type t = EXPENSE) example_store"
    by simp
  have income: "filter (\<lambda>t. tx_type t = INCOME) example_store \<noteq> []"
    by (simp add: example_store_def)
  have total: "toFixed2_exact (expense_total example_store (local_where ''u1'' no_range sum_total))
     = ''42.50''"
    by code_simp
  have label: "rangeLabel no_range = ''all time''"
    by (simp add: rangeLabel_def no_range_def)
  note inst = sum_answers_expense_only [of toFixed2_exact None example_store 0 "''u1''" no_range "''Dining''"]
  from inst same have "local_answer toFixed2_exact None (filter (\<lambda>t. tx_type t = EXPENSE) example_store) 0 ''u1''
        no_range sum_total
      = local_answer toFixed2_exact None example_store 0 ''u1'' no_range sum_total"
    by blast
  moreover from inst total label
  have "local_answer toFixed2_exact None example_store 0 ''u1'' no_range sum_total
      = ''You spent a total of '' @ rupee @ ''42.50 all time.''"
    by simp
  ultimately show ?thesis
    using same income by blast
qed

subsection \<open>The budget branch\<close>

text \<open>
  C6.  For every user whose stored monthly budget is 0, and whatever the store holds
  (so for every amount spent this month), the answer to BudgetSurvivability is the
  branch for a budget that is not set: it reports the amount spent so far and gives no
  verdict.
\<close>

theorem no_budget_branch:
  assumes "budget = Some 0"
  shows "local_answer toFixed2 budget store now userId inferred budget_survivability =
     ''You haven'' @ apos @ ''t set a monthly budget yet. So far this month you'' @ apos
     @ ''ve spent '' @ rupee @ toFixed2 (spent (budget_figures_of budget store now userId)) @ ''.''"
proof -
  from assms have "monthlyBudget (budget_figures_of budget store now userId) = 0"
    by (simp add: budget_figures_of_def Let_def)
  then show ?thesis
    by (simp add: local_answer_def budget_reply_def)
qed

text \<open>On 16 January 2024 the user of the example store has spent 42.50 this month.\<close>

theorem no_budget_branch_witness:
  "local_answer toFixed2_exact (Some 0) example_store 1705400000000 ''u1'' no_range
     budget_survivability =
     ''You haven'' @ apos @ ''t set a monthly budget yet. So far this month you'' @ apos
     @ ''ve spent '' @ rupee @ ''42.50.''"
proof -
  have "toFixed2_exact (spent (budget_figures_of (Some 0) example_store 1705400000000 ''u1''))
     = ''42.50''"
    by code_simp
  with no_budget_branch [of "Some 0" toFixed2_exact example_store 1705400000000 "''u1''" no_range]
  show ?thesis
    by simp
qed

subsection \<open>The chat query route\<close>

lemma detectIntent_empty: "detectIntent [] = None"
  by code_simp

text \<open>
  C2 (as found in the source).  When the API credential is configured, a chat query
  whose message matches one of the five intents is answered with the local reply, and no
  call to the external AI service is made.  When the credential is not configured, every
  query with a message is rejected with status 500 before the intent is looked at.
\<close>

theorem local_intent_reply:
  "(GEMINI_API_KEY = Some k \<and> k \<noteq> [] \<and> detectIntent message = Some i \<longrightarrow>
      post_query toFixed2 Date_parse GEMINI_API_KEY budget store fetch now userId (Some message)
      = (Reply (local_answer toFixed2 budget store now userId
                  (parseUserDateRange Date_parse message now) i), []))
   \<and> (message \<noteq> [] \<and> (GEMINI_API_KEY = None \<or> GEMINI_API_KEY = Some []) \<longrightarrow>
      post_query toFixed2 Date_parse GEMINI_API_KEY budget store fetch now userId (Some message)
      = (Failure 500 ''GEMINI_API_KEY not configured'', []))"
proof (intro conjI impI)
  assume h: "GEMINI_API_KEY = Some k \<and> k \<noteq> [] \<and> detectIntent message = Some i"
  then have "message \<noteq> []"
    using detectIntent_empty by auto
  with h show "post_query toFixed2 Date_parse GEMINI_API_KEY budget store fetch now userId (Some message)
      = (Reply (local_answer toFixed2 budget store now userId
                  (parseUserDateRange Date_parse message now) i), [])"
    by (simp add: post_query_def)
next
  assume "message \<noteq> [] \<and> (GEMINI_API_KEY = None \<or> GEMINI_API_KEY = Some [])"
  then show "post_query toFixed2 Date_parse GEMINI_API_KEY budget store fetch now userId (Some message)
      = (Failure 500 ''GEMINI_API_KEY not configured'', [])"
    by (auto simp: post_query_def)
qed

text \<open>
  With a credential, ``how much did i spend'' gets the local total of the example store;
  the AI service, which would throw, is not called.
\<close>

theorem local_intent_reply_witness:
  "detectIntent ''how much did i spend'' = Some sum_total
   \<and> post_query toFixed2_exact Date_parse_example (Some ''key'') None example_store
        (\<lambda>n. Throws) 0 ''u1'' (Some ''how much did i spend'')
      = (Reply (''You spent a total of '' @ rupee @ ''42.50 all time.''), [])
   \<and> post_query toFixed2_exact Date_parse_example (Some []) None example_store
        (\<lambda>n. Throws) 0 ''u1'' (Some ''how much did i spend'')
      = (Failure 500 ''GEMINI_API_KEY not configured'', [])"
proof -
  have i: "detectIntent ''how much did i spend'' = Some sum_total"
    by code_simp
  have a: "local_answer toFixed2_exact None example_store 0 ''u1''
             (parseUserDateRange Date_parse_example ''how much did i spend'' 0) sum_total
           = ''You spent a total of '' @ rupee @ ''42.50 all time.''"
    by code_simp
  from local_intent_reply [of "Some ''key''" "''key''" "''how much did i spend''" sum_total
      toFixed2_exact Date_parse_example None example_store "\<lambda>n. Throws" 0 "''u1''"] i a
  have "post_query toFixed2_exact Date_parse_example (Some ''key'') None example_store
        (\<lambda>n. Throws) 0 ''u1'' (Some ''how much did i spend'')
      = (Reply (''You spent a total of '' @ rupee @ ''42.50 all time.''), [])"
    by simp
  moreover
  from local_intent_reply [of "Some []" "[]" "''how much did i spend''" sum_total
      toFixed2_exact Date_parse_example None example_store "\<lambda>n. Throws" 0 "''u1''"]
  have "post_query toFixed2_exact Date_parse_example (Some []) None example_store
        (\<lambda>n. Throws) 0 ''u1'' (Some ''how much did i spend'')
      = (Failure 500 ''GEMINI_API_KEY not configured'', [])"
    by simp
  ultimately show ?thesis
    using i by blast
qed

text \<open>
  Without a credential the same query, which matches the intent SumTotal, fails with
  status 500 and gets no local reply.
\<close>

theorem local_intent_needs_credential:
  "detectIntent ''how much did i spend'' = Some sum_total
   \<and> post_query toFixed2_exact Date_parse_example None None example_store
        (\<lambda>n. Throws) 0 ''u1'' (Some ''how much did i spend'')
      = (Failure 500 ''GEMINI_API_KEY not configured'', [])"
  by code_simp

text \<open>
  C7.  When a chat query falls back to the external AI service (credential configured,
  no intent matched), the service is called once more, after a pause of 600 ms, exactly
  when the first response has status 503; for any other first response it is called
  once.  A response that is not OK, after the retry or with any status other than 503,
  is answered with status 500.
\<close>

theorem ai_retry_once:
  assumes "GEMINI_API_KEY = Some k" and "k \<noteq> []" and "message \<noteq> []"
    and "detectIntent message = None"
  shows "post_query toFixed2 Date_parse GEMINI_API_KEY budget store fetch now userId (Some message)
      = ai_fallback fetch
   \<and> ((\<exists>t. fetch 0 = Response 503 t) \<longrightarrow> snd (ai_fallback fetch) = [Fetch, Sleep 600, Fetch])
   \<and> ((\<forall>t. fetch 0 \<noteq> Response 503 t) \<longrightarrow> snd (ai_fallback fetch) = [Fetch])
   \<and> (\<forall>s t. fetch 0 = Response s t \<and> s \<noteq> 503 \<and> \<not> response_ok s \<longrightarrow>
         ai_fallback fetch = (Failure 500 ''AI request failed'', [Fetch]))
   \<and> (\<forall>t s2 t2. fetch 0 = Response 503 t \<and> fetch 1 = Response s2 t2 \<and> \<not> response_ok s2 \<longrightarrow>
         ai_fallback fetch = (Failure 500 ''AI request failed'', [Fetch, Sleep 600, Fetch]))"
proof (intro conjI allI impI)
  from assms show "post_query toFixed2 Date_parse GEMINI_API_KEY budget store fetch now userId
      (Some message) = ai_fallback fetch"
    by (simp add: post_query_def)
next
  assume "\<exists>t. fetch 0 = Response 503 t"
  then show "snd (ai_fallback fetch) = [Fetch, Sleep 600, Fetch]"
    by (auto simp: ai_fallback_def response_ok_def split: fetch_result.splits)
next
  assume "\<forall>t. fetch 0 \<noteq> Response 503 t"
  then show "snd (ai_fallback fetch) = [Fetch]"
    by (auto simp: ai_fallback_def response_ok_def split: fetch_result.splits)
next
  fix s t
  assume "fetch 0 = Response s t \<and> s \<noteq> 503 \<and> \<not> response_ok s"
  then show "ai_fallback fetch = (Failure 500 ''AI request failed'', [Fetch])"
    by (simp add: ai_fallback_def after_fetch_def)
next
  fix t s2 t2
  assume "fetch 0 = Response 503 t \<and> fetch 1 = Response s2 t2 \<and> \<not> response_ok s2"
  then show "ai_fallback fetch = (Failure 500 ''AI request failed'', [Fetch, Sleep 600, Fetch])"
    by (simp add: ai_fallback_def after_fetch_def response_ok_def)
qed

text \<open>
  ``hello'' matches no intent.  A service that always answers 503 is called twice and the
  request fails; a service that answers 500 is called once and the request fails.
\<close>

theorem ai_retry_once_witness:
  "detectIntent ''hello'' = None
   \<and> post_query toFixed2_exact Date_parse_example (Some ''key'') None example_store
        (\<lambda>n. Response 503 None) 0 ''u1'' (Some ''hello'')
      = (Failure 500 ''AI request failed'', [Fetch, Sleep 600, Fetch])
   \<and> post_query toFixed2_exact Date_parse_example (Some ''key'') None example_store
        (\<lambda>n. Response 500 None) 0 ''u1'' (Some ''hello'')
      = (Failure 500 ''AI request failed'', [Fetch])"
proof -
  have i: "detectIntent ''hello'' = None"
    by code_simp
  have nok: "\<not> response_ok 503" "\<not> response_ok 500"
    by (simp_all add: response_ok_def)
  from ai_retry_once [of "Some ''key''" "''key''" "''hello''" toFixed2_exact Date_parse_example
      None example_store "\<lambda>n. Response 503 None" 0 "''u1''"] i nok
  have "post_query toFixed2_exact Date_parse_example (Some ''key'') None example_store
        (\<lambda>n. Response 503 None) 0 ''u1'' (Some ''hello'')
      = (Failure 500 ''AI request failed'', [Fetch, Sleep 600, Fetch])"
    by simp
  moreover
  from ai_retry_once [of "Some ''key''" "''key''" "''hello''" toFixed2_exact Date_parse_example
      None example_store "\<lambda>n. Response 500 None" 0 "''u1''"] i nok
  have "post_query toFixed2_exact Date_parse_example (Some ''key'') None example_store
        (\<lambda>n. Response 500 None) 0 ''u1'' (Some ''hello'')
      = (Failure 500 ''AI request failed'', [Fetch])"
    by simp
  ultimately show ?thesis
    using i by blast
qed

subsection \<open>The upload routes\<close>




subsection \<open>Amounts of the persisted transactions\<close>

text \<open>The receipt scan only keeps amounts above 0, and the confirmation route only
  accepts amounts above 0.\<close>

lemma first_amount_positive: "first_amount ps line = Some v \<Longrightarrow> v > 0"
  by (induction ps) (auto split: option.splits if_splits)

lemma scan_lines_positive: "c \<in> set (scan_lines now ls) \<Longrightarrow> c_amount c > 0"
  by (induction ls) (auto split: option.splits dest: first_amount_positive)

lemma post_receipt_positive:
  assumes "\<forall>x \<in> set store. tx_amount x > 0"
  shows "\<forall>x \<in> set (snd (post_receipt now userId file store)). tx_amount x > 0"
  using assms
  by (auto simp: post_receipt_def Let_def extractTransactionsFromText_def create_row_def
      split: option.splits dest: scan_lines_positive)

lemma post_confirm_positive:
  assumes "\<forall>x \<in> set store. tx_amount x > 0"
  shows "\<forall>x \<in> set (snd (post_confirm Date_parse userId ts store)). tx_amount x > 0"
proof -
  have "tx_amount (the (confirm_row Date_parse userId t)) > 0"
    if "confirmSchema ts" and "t \<in> set ts" and "confirm_row Date_parse userId t \<noteq> None" for t
    using that
    by (auto simp: confirmSchema_def list_all_iff confirm_row_def split: option.splits)
  moreover have "confirm_row Date_parse userId t \<noteq> None"
    if "\<not> list_ex (\<lambda>r. r = None) (map (confirm_row Date_parse userId) ts)" and "t \<in> set ts" for t
    using that by (force simp: list_ex_iff)
  ultimately show ?thesis
    using assms by (auto simp: post_confirm_def Let_def)
qed

text \<open>
  C3 says that every transaction persisted through a creation path has a strictly
  positive amount.  The receipt scan and the confirmation route keep to it (above); the
  statement route does not, since it only requires the amount of a line to be a number.
  A statement whose only line has the amount \<^verbatim>\<open>-12.50\<close> is imported, and the
  transaction it leaves in the store has the amount \<open>-12.5\<close>.
\<close>

theorem statement_negative_amount:
  "post_statement Date_parse_example ''u1''
     (Some \<lparr>mimetype = ''application/pdf'',
            extracted = Some ''2024-01-15 Coffee Shop Dining -12.50 EXPENSE''\<rparr>) []
   = (Statement_imported 1 0 [],
      [\<lparr>tx_userId = ''u1'', tx_type = EXPENSE, tx_amount = - 25 / 2, tx_category = ''Dining'',
        tx_description = Some ''Coffee Shop'', tx_date = 1705276800000\<rparr>])"
  by code_simp

subsection \<open>Date-range inference: both bounds or none\<close>

text \<open>
  The two halves of the calendar agree on sample days: the getters read back the year,
  the month and the day that \<open>MakeDay\<close> was given (leap days, the turn of a year, a year
  before the epoch and a negative year among them), and a month or a day out of range
  carries over.
\<close>

lemma calendar_examples:
  "list_all (\<lambda>(y, m, d). civil_from_days (MakeDay y (m - 1) d) = (y, m, d))
     [(2025, 7, 10), (2025, 10, 7), (2024, 2, 29), (2000, 2, 29), (1900, 3, 1), (1970, 1, 1),
      (1969, 12, 31), (2100, 12, 31), (1600, 1, 1), (- 1, 1, 1), (0, 2, 29), (2023, 2, 28)]"
  "MakeDay 1970 0 1 = 0"
  "MakeDay 2025 12 1 = MakeDay 2026 0 1"
  "MakeDay 2025 (- 1) 1 = MakeDay 2024 11 1"
  "MakeDay 2025 1 30 = MakeDay 2025 2 2"
  "getFullYear 1752105600123 = 2025 \<and> getMonth 1752105600123 = 6 \<and> getDate 1752105600123 = 10"
  by code_simp+


















subsection \<open>Date-range inference: explicit date tokens\<close>

text \<open>A message without a small letter matches no phrase pattern.\<close>

lemma needs_first_match:
  "needs_first r P \<Longrightarrow> rmatch r p s \<noteq> [] \<Longrightarrow> s \<noteq> [] \<and> P (hd s)"
proof (induction r arbitrary: p s)
  case (Chr c)
  then show ?case by (cases s) (auto split: if_splits)
next
  case (Seq a b)
  from Seq.prems have "needs_first a P"
    by simp
  moreover from Seq.prems have "rmatch a p s \<noteq> []"
    by (cases "rmatch a p s") auto
  ultimately show ?case
    by (rule Seq.IH(1))
next
  case (Alt a b)
  then show ?case by auto
next
  case (Grp a)
  then show ?case by auto
qed simp_all

lemma needs_first_search:
  "needs_first r P \<Longrightarrow> \<forall>c \<in> set m. \<not> P c \<Longrightarrow> rsearch r p m = None"
proof (induction m arbitrary: p)
  case Nil
  then show ?case
    using needs_first_match [of r P p "[]"] by (cases "rmatch r p []") auto
next
  case (Cons x xs)
  then show ?case
    using needs_first_match [of r P p "x # xs"] by (cases "rmatch r p (x # xs)") auto
qed

lemma phrases_need_letter:
  "needs_first re_today is_lower" "needs_first re_yesterday is_lower"
  "needs_first re_last_week is_lower" "needs_first re_this_month is_lower"
  "needs_first re_last_month is_lower" "needs_first re_this_year is_lower"
  "needs_first re_last_year is_lower"
  by (simp_all add: re_today_def re_yesterday_def re_last_week_def re_this_month_def
      re_last_month_def re_this_year_def re_last_year_def is_lower_def)

text \<open>The date pattern on a token of each shape, character by character.\<close>

lemma digit_not: "is_digit x \<Longrightarrow> \<not> is_digit k \<Longrightarrow> (x = k) = False"
  by auto

lemma digit_class: "is_digit x \<Longrightarrow> is_word x \<and> \<not> is_space x \<and> \<not> is_upper x \<and> \<not> is_lower x"
  by (auto simp: is_digit_def is_word_def is_space_def is_upper_def is_lower_def)


lemma token_1_1:
  assumes "is_digit a1" "is_digit b1" "is_digit c1" "is_digit c2" "is_digit c3" "is_digit c4"
    and "s1 = CHR ''/'' \<or> s1 = CHR ''-''" and "s2 = CHR ''/'' \<or> s2 = CHR ''-''"
  shows "re_group1 re_date [a1, s1, b1, s2, c1, c2, c3, c4] = Some [a1, s1, b1, s2, c1, c2, c3, c4]
    \<and> \<not> re_test re_iso [a1, s1, b1, s2, c1, c2, c3, c4]
    \<and> split_on (\<lambda>ch. ch = CHR ''/'' \<or> ch = CHR ''-'') [a1, s1, b1, s2, c1, c2, c3, c4] = [[a1], [b1], [c1, c2, c3, c4]]
    \<and> toLowerCase [a1, s1, b1, s2, c1, c2, c3, c4] = [a1, s1, b1, s2, c1, c2, c3, c4]
    \<and> (\<forall>c \<in> set [a1, s1, b1, s2, c1, c2, c3, c4]. \<not> is_lower c)"
  using assms
  by (elim disjE)
    (simp_all add: re_group1_def re_test_def re_date_def re_iso_def word_opt_def next_char_def digit_class digit_not is_digit_def [of "CHR ''/''"] is_digit_def [of "CHR ''-''"] is_word_def [of "CHR ''/''"] is_word_def [of "CHR ''-''"] is_upper_def [of "CHR ''/''"] is_upper_def [of "CHR ''-''"] is_lower_def [of "CHR ''/''"] is_lower_def [of "CHR ''-''"] toLowerCase_def lower_char_def)

lemma token_2_1:
  assumes "is_digit a1" "is_digit a2" "is_digit b1" "is_digit c1" "is_digit c2" "is_digit c3" "is_digit c4"
    and "s1 = CHR ''/'' \<or> s1 = CHR ''-''" and "s2 = CHR ''/'' \<or> s2 = CHR ''-''"
  shows "re_group1 re_date [a1, a2, s1, b1, s2, c1, c2, c3, c4] = Some [a1, a2, s1, b1, s2, c1, c2, c3, c4]
    \<and> \<not> re_test re_iso [a1, a2, s1, b1, s2, c1, c2, c3, c4]
    \<and> split_on (\<lambda>ch. ch = CHR ''/'' \<or> ch = CHR ''-'') [a1, a2, s1, b1, s2, c1, c2, c3, c4] = [[a1, a2], [b1], [c1, c2, c3, c4]]
    \<and> toLowerCase [a1, a2, s1, b1, s2, c1, c2, c3, c4] = [a1, a2, s1, b1, s2, c1, c2, c3, c4]
    \<and> (\<forall>c \<in> set [a1, a2, s1, b1, s2, c1, c2, c3, c4]. \<not> is_lower c)"
  using assms
  by (elim disjE)
    (simp_all add: re_group1_def re_test_def re_date_def re_iso_def word_opt_def next_char_def digit_class digit_not is_digit_def [of "CHR ''/''"] is_digit_def [of "CHR ''-''"] is_word_def [of "CHR ''/''"] is_word_def [of "CHR ''-''"] is_upper_def [of "CHR ''/''"] is_upper_def [of "CHR ''-''"] is_lower_def [of "CHR ''/''"] is_lower_def [of "CHR ''-''"] toLowerCase_def lower_char_def)

lemma token_1_2:
  assumes "is_digit a1" "is_digit b1" "is_digit b2" "is_digit c1" "is_digit c2" "is_digit c3" "is_digit c4"
    and "s1 = CHR ''/'' \<or> s1 = CHR ''-''" and "s2 = CHR ''/'' \<or> s2 = CHR ''-''"
  shows "re_group1 re_date [a1, s1, b1, b2, s2, c1, c2, c3, c4] = Some [a1, s1, b1, b2, s2, c1, c2, c3, c4]
    \<and> \<not> re_test re_iso [a1, s1, b1, b2, s2, c1, c2, c3, c4]
    \<and> split_on (\<lambda>ch. ch = CHR ''/'' \<or> ch = CHR ''-'') [a1, s1, b1, b2, s2, c1, c2, c3, c4] = [[a1], [b1, b2], [c1, c2, c3, c4]]
    \<and> toLowerCase [a1, s1, b1, b2, s2, c1, c2, c3, c4] = [a1, s1, b1, b2, s2, c1, c2, c3, c4]
    \<and> (\<forall>c \<in> set [a1, s1, b1, b2, s2, c1, c2, c3, c4]. \<not> is_lower c)"
  using assms
  by (elim disjE)
    (simp_all add: re_group1_def re_test_def re_date_def re_iso_def word_opt_def next_char_def digit_class digit_not is_digit_def [of "CHR ''/''"] is_digit_def [of "CHR ''-''"] is_word_def [of "CHR ''/''"] is_word_def [of "CHR ''-''"] is_upper_def [of "CHR ''/''"] is_upper_def [of "CHR ''-''"] is_lower_def [of "CHR ''/''"] is_lower_def [of "CHR ''-''"] toLowerCase_def lower_char_def)

lemma token_2_2:
  assumes "is_digit a1" "is_digit a2" "is_digit b1" "is_digit b2" "is_digit c1" "is_digit c2" "is_digit c3" "is_digit c4"
    and "s1 = CHR ''/'' \<or> s1 = CHR ''-''" and "s2 = CHR ''/'' \<or> s2 = CHR ''-''"
  shows "re_group1 re_date [a1, a2, s1, b1, b2, s2, c1, c2, c3, c4] = Some [a1, a2, s1, b1, b2, s2, c1, c2, c3, c4]
    \<and> \<not> re_test re_iso [a1, a2, s1, b1, b2, s2, c1, c2, c3, c4]
    \<and> split_on (\<lambda>ch. ch = CHR ''/'' \<or> ch = CHR ''-'') [a1, a2, s1, b1, b2, s2, c1, c2, c3, c4] = [[a1, a2], [b1, b2], [c1, c2, c3, c4]]
    \<and> toLowerCase [a1, a2, s1, b1, b2, s2, c1, c2, c3, c4] = [a1, a2, s1, b1, b2, s2, c1, c2, c3, c4]
    \<and> (\<forall>c \<in> set [a1, a2, s1, b1, b2, s2, c1, c2, c3, c4]. \<not> is_lower c)"
  using assms
  by (elim disjE)
    (simp_all add: re_group1_def re_test_def re_date_def re_iso_def word_opt_def next_char_def digit_class digit_not is_digit_def [of "CHR ''/''"] is_digit_def [of "CHR ''-''"] is_word_def [of "CHR ''/''"] is_word_def [of "CHR ''-''"] is_upper_def [of "CHR ''/''"] is_upper_def [of "CHR ''-''"] is_lower_def [of "CHR ''/''"] is_lower_def [of "CHR ''-''"] toLowerCase_def lower_char_def)

lemma parseInt10_digits:
  assumes "ds \<noteq> []" and "list_all is_digit ds"
  shows "parseInt10 ds = Some (decimal ds)"
proof -
  from assms obtain x xs where ds: "ds = x # xs" and x: "is_digit x"
    by (cases ds) auto
  from assms have t: "takeWhile is_digit ds = ds"
    by (simp add: list_all_iff)
  from x have "\<not> is_space x" "x \<noteq> CHR ''-''" "x \<noteq> CHR ''+''"
    by (auto simp: is_digit_def is_space_def)
  with t show ?thesis
    unfolding parseInt10_def Let_def ds using assms(1) ds by simp
qed

lemma no_phrase:
  assumes "\<forall>c \<in> set m. \<not> is_lower c"
  shows "no_phrase_match m"
  using assms phrases_need_letter
  by (simp add: no_phrase_match_def re_test_def needs_first_search [where P = is_lower])

lemma digits12:
  assumes "list_all is_digit xs" and "1 \<le> length xs" and "length xs \<le> 2"
  shows "(\<exists>x. xs = [x] \<and> is_digit x) \<or> (\<exists>x y. xs = [x, y] \<and> is_digit x \<and> is_digit y)"
proof (cases xs)
  case Nil
  with assms show ?thesis by simp
next
  case (Cons x ys)
  show ?thesis
  proof (cases ys)
    case Nil
    with Cons assms show ?thesis by simp
  next
    case (Cons y zs)
    with \<open>xs = x # ys\<close> assms have "zs = []" by simp
    with Cons \<open>xs = x # ys\<close> assms show ?thesis by simp
  qed
qed

lemma digits4:
  assumes "list_all is_digit xs" and "length xs = 4"
  shows "\<exists>w x y z. xs = [w, x, y, z] \<and> is_digit w \<and> is_digit x \<and> is_digit y \<and> is_digit z"
proof -
  from assms(2) obtain w x y z where "xs = [w, x, y, z]"
    by (auto simp: numeral_eq_Suc length_Suc_conv)
  with assms(1) show ?thesis by simp
qed

lemma token_shape:
  assumes "list_all is_digit a" and "1 \<le> length a" and "length a \<le> 2"
    and "list_all is_digit b" and "1 \<le> length b" and "length b \<le> 2"
    and "list_all is_digit c" and "length c = 4"
    and "s1 = CHR ''/'' \<or> s1 = CHR ''-''" and "s2 = CHR ''/'' \<or> s2 = CHR ''-''"
  shows "re_group1 re_date (a @ [s1] @ b @ [s2] @ c) = Some (a @ [s1] @ b @ [s2] @ c)
    \<and> \<not> re_test re_iso (a @ [s1] @ b @ [s2] @ c)
    \<and> split_on (\<lambda>ch. ch = CHR ''/'' \<or> ch = CHR ''-'') (a @ [s1] @ b @ [s2] @ c) = [a, b, c]
    \<and> toLowerCase (a @ [s1] @ b @ [s2] @ c) = a @ [s1] @ b @ [s2] @ c
    \<and> (\<forall>x \<in> set (a @ [s1] @ b @ [s2] @ c). \<not> is_lower x)"
proof -
  from digits4 [OF assms(7,8)] obtain c1 c2 c3 c4
    where c: "c = [c1, c2, c3, c4]" "is_digit c1" "is_digit c2" "is_digit c3" "is_digit c4"
    by blast
  from digits12 [OF assms(1-3)] digits12 [OF assms(4-6)]
  consider a1 b1 where "a = [a1]" "is_digit a1" "b = [b1]" "is_digit b1"
    | a1 a2 b1 where "a = [a1, a2]" "is_digit a1" "is_digit a2" "b = [b1]" "is_digit b1"
    | a1 b1 b2 where "a = [a1]" "is_digit a1" "b = [b1, b2]" "is_digit b1" "is_digit b2"
    | a1 a2 b1 b2 where "a = [a1, a2]" "is_digit a1" "is_digit a2"
        "b = [b1, b2]" "is_digit b1" "is_digit b2"
    by blast
  then show ?thesis
  proof cases
    case 1
    with c token_1_1 [of a1 b1 c1 c2 c3 c4 s1 s2] assms(9,10) show ?thesis by simp
  next
    case 2
    with c token_2_1 [of a1 a2 b1 c1 c2 c3 c4 s1 s2] assms(9,10) show ?thesis by simp
  next
    case 3
    with c token_1_2 [of a1 b1 b2 c1 c2 c3 c4 s1 s2] assms(9,10) show ?thesis by simp
  next
    case 4
    with c token_2_2 [of a1 a2 b1 b2 c1 c2 c3 c4 s1 s2] assms(9,10) show ?thesis by simp
  qed
qed

text \<open>
  C4 (as found in the source).  Let the message match none of the phrase patterns, and
  let its explicit date token be \<open>a\<close>, a separator, \<open>b\<close>, a separator, \<open>c\<close>, with \<open>a\<close> and
  \<open>b\<close> of one or two digits, \<open>c\<close> of four digits and at least 100, each separator a slash
  or a dash.  Then the token is read day first if and only if \<open>a\<close> is above 12: the date
  \<open>d\<close> is \<^verbatim>\<open>new Date(c, b - 1, a)\<close> when \<open>a > 12\<close> and \<^verbatim>\<open>new Date(c, a - 1, b)\<close>
  otherwise, and the result is the range from the start to the end of the day of \<open>d\<close> with
  the kind \<^verbatim>\<open>specific_day\<close>.  So \<^verbatim>\<open>13/10/2025\<close> is 13 October 2025, and
  \<^verbatim>\<open>7/10/2025\<close> is 10 July 2025.
\<close>

theorem explicit_date_day_first:
  assumes "list_all is_digit a" and "1 \<le> length a" and "length a \<le> 2"
    and "list_all is_digit b" and "1 \<le> length b" and "length b \<le> 2"
    and "list_all is_digit c" and "length c = 4" and "100 \<le> decimal c"
    and "s1 = CHR ''/'' \<or> s1 = CHR ''-''" and "s2 = CHR ''/'' \<or> s2 = CHR ''-''"
    and "no_phrase_match (toLowerCase message)"
    and "re_group1 re_date (toLowerCase message) = Some (a @ [s1] @ b @ [s2] @ c)"
  shows "parseUserDateRange Date_parse message now =
    (let dayFirst = (decimal a > 12);
         day = (if dayFirst then decimal a else decimal b);
         month = (if dayFirst then decimal b else decimal a);
         d = new_Date (decimal c) (month - 1) day 0 0 0 0
     in some_range (toStartOfDay d) (toEndOfDay d) ''specific_day'')"
proof -
  define raw where "raw = a @ [s1] @ b @ [s2] @ c"
  have tok: "\<not> re_test re_iso raw"
    "split_on (\<lambda>ch. ch = CHR ''/'' \<or> ch = CHR ''-'') raw = [a, b, c]"
    unfolding raw_def
    using token_shape [OF assms(1-8) assms(10,11)] by blast+
  from assms have ne: "a \<noteq> []" "b \<noteq> []" "c \<noteq> []"
    by auto
  have num: "parseInt10 a = Some (decimal a)" "parseInt10 b = Some (decimal b)"
    "parseInt10 c = Some (decimal c)"
    using ne assms(1,4,7) by (simp_all add: parseInt10_digits)
  have d: "explicit_date Date_parse raw =
      Some (new_Date (decimal c)
             ((if decimal a > 12 then decimal b else decimal a) - 1)
             (if decimal a > 12 then decimal a else decimal b) 0 0 0 0)"
    unfolding explicit_date_def
    using tok num assms(9)
    by (simp add: Let_def nth_num_def num_ge_def num_gt_def new_Date3_def)
  from assms(12,13) d show ?thesis
    unfolding parseUserDateRange_def raw_def [symmetric] no_phrase_match_def
    by (simp add: Let_def)
qed

text \<open>A token inside a question, read day first, and a token with dashes, read month
  first; the ranges are those of 13 October 2025 and of 10 July 2025.\<close>

theorem explicit_date_day_first_witness:
  "parseUserDateRange Date_parse_example ''How much did I spend on 13/10/2025?'' 0
     = some_range 1760313600000 1760399999999 ''specific_day''
   \<and> civil_from_days (Day 1760313600000) = (2025, 10, 13)
   \<and> parseUserDateRange Date_parse_example ''7-10-2025'' 0
     = some_range 1752105600000 1752191999999 ''specific_day''
   \<and> civil_from_days (Day 1752105600000) = (2025, 7, 10)"
proof -
  have h13: "list_all is_digit ''13''" "1 \<le> length ''13''" "length ''13'' \<le> 2"
    and h7: "list_all is_digit ''7''" "1 \<le> length ''7''" "length ''7'' \<le> 2"
    and h10: "list_all is_digit ''10''" "1 \<le> length ''10''" "length ''10'' \<le> 2"
    and h2025: "list_all is_digit ''2025''" "length ''2025'' = 4" "100 \<le> decimal ''2025''"
    by (simp_all add: is_digit_def decimal_def digit_val_def)
  have sl: "CHR ''/'' = CHR ''/'' \<or> CHR ''/'' = CHR ''-''"
    and da: "CHR ''-'' = CHR ''/'' \<or> CHR ''-'' = CHR ''-''"
    by simp_all
  have m1: "no_phrase_match (toLowerCase ''How much did I spend on 13/10/2025?'')"
    "re_group1 re_date (toLowerCase ''How much did I spend on 13/10/2025?'')
       = Some (''13'' @ [CHR ''/''] @ ''10'' @ [CHR ''/''] @ ''2025'')"
    by code_simp+
  have m2: "no_phrase_match (toLowerCase ''7-10-2025'')"
    "re_group1 re_date (toLowerCase ''7-10-2025'')
       = Some (''7'' @ [CHR ''-''] @ ''10'' @ [CHR ''-''] @ ''2025'')"
    by code_simp+
  have v: "decimal ''13'' = 13" "decimal ''10'' = 10" "decimal ''7'' = 7" "decimal ''2025'' = 2025"
    by (simp_all add: decimal_def digit_val_def)
  have r1: "toStartOfDay (new_Date 2025 9 13 0 0 0 0) = 1760313600000"
    "toEndOfDay (new_Date 2025 9 13 0 0 0 0) = 1760399999999"
    "toStartOfDay (new_Date 2025 6 10 0 0 0 0) = 1752105600000"
    "toEndOfDay (new_Date 2025 6 10 0 0 0 0) = 1752191999999"
    "civil_from_days (Day 1760313600000) = (2025, 10, 13)"
    "civil_from_days (Day 1752105600000) = (2025, 7, 10)"
    by code_simp+
  from explicit_date_day_first [OF h13 h10 h2025 sl sl m1, of Date_parse_example 0]
  have "parseUserDateRange Date_parse_example ''How much did I spend on 13/10/2025?'' 0
     = some_range 1760313600000 1760399999999 ''specific_day''"
    by (simp add: v r1 Let_def)
  moreover
  from explicit_date_day_first [OF h7 h10 h2025 da da m2, of Date_parse_example 0]
  have "parseUserDateRange Date_parse_example ''7-10-2025'' 0
     = some_range 1752105600000 1752191999999 ''specific_day''"
    by (simp add: v r1 Let_def)
  ultimately show ?thesis
    using r1 by simp
qed

text \<open>A message that is such a token and nothing else satisfies the two conditions on
  the message.\<close>

lemma explicit_date_token_alone:
  assumes "list_all is_digit a" and "1 \<le> length a" and "length a \<le> 2"
    and "list_all is_digit b" and "1 \<le> length b" and "length b \<le> 2"
    and "list_all is_digit c" and "length c = 4"
    and "s1 = CHR ''/'' \<or> s1 = CHR ''-''" and "s2 = CHR ''/'' \<or> s2 = CHR ''-''"
  shows "no_phrase_match (toLowerCase (a @ [s1] @ b @ [s2] @ c))
    \<and> re_group1 re_date (toLowerCase (a @ [s1] @ b @ [s2] @ c)) = Some (a @ [s1] @ b @ [s2] @ c)"
  using token_shape [OF assms] no_phrase [of "a @ [s1] @ b @ [s2] @ c"]
  by simp

text \<open>The token \<^verbatim>\<open>7/10/2025\<close> gives the day of 10 July 2025, not that of 7 October
  2025.\<close>

theorem seven_ten_is_july:
  "parseUserDateRange Date_parse_example ''7/10/2025'' 0
     = some_range (MakeDate (MakeDay 2025 6 10) 0) (MakeDate (MakeDay 2025 6 10) 86399999)
         ''specific_day''
   \<and> civil_from_days (MakeDay 2025 6 10) = (2025, 7, 10)
   \<and> civil_from_days (MakeDay 2025 9 7) = (2025, 10, 7)
   \<and> parseUserDateRange Date_parse_example ''7/10/2025'' 0
     \<noteq> some_range (MakeDate (MakeDay 2025 9 7) 0) (MakeDate (MakeDay 2025 9 7) 86399999)
         ''specific_day''"
  by code_simp

end
